theory Spec2Isabelle
  imports Complex_Main "HOL-Library.Word"
begin

section \<open>Python values and library functions\<close>

text \<open>
  The sources are Python. Exceptions are values of \<open>exn\<close>; a function that can raise
  returns \<open>exn + 'a\<close> with \<open>Inl\<close> for the exception. A Python \<open>float\<close> is the
  \<open>real\<close> number it denotes, and comparisons of floats are the exact ones. Float
  arithmetic rounds: where a property depends on a computed float, the operation is a
  parameter of the model (see \<open>pylib\<close> below) and nothing is assumed about how it
  rounds. Infinities and NaN are not modelled.
\<close>

datatype exn = TypeError | KeyError | ValueError | IndexError | AttributeError
  | UnboundLocalError

text \<open>JSON-like data: what a \<open>Dict[str, Any]\<close> payload holds. A dict keeps its
  insertion order, as Python's does.\<close>

datatype jval = JNone | JBool bool | JInt int | JFloat real | JStr string
  | JList "jval list" | JDict "(string \<times> jval) list"

text \<open>Python truthiness (\<open>if result\<close>, \<open>if success\<close>).\<close>

fun truthy :: "jval \<Rightarrow> bool" where
  "truthy JNone = False"
| "truthy (JBool b) = b"
| "truthy (JInt i) = (i \<noteq> 0)"
| "truthy (JFloat r) = (r \<noteq> 0)"
| "truthy (JStr s) = (s \<noteq> [])"
| "truthy (JList xs) = (xs \<noteq> [])"
| "truthy (JDict kvs) = (kvs \<noteq> [])"

text \<open>\<open>v == 0.0\<close>: numbers compare by value (\<open>bool\<close> is an \<open>int\<close>), everything
  else is unequal to a float.\<close>

fun eq_zero :: "jval \<Rightarrow> bool" where
  "eq_zero (JBool b) = (\<not> b)"
| "eq_zero (JInt i) = (i = 0)"
| "eq_zero (JFloat r) = (r = 0)"
| "eq_zero v = False"

text \<open>\<open>d.get(k, default)\<close> and \<open>d[k] = v\<close> on an insertion-ordered dict.\<close>

definition dict_get :: "('k \<times> 'v) list \<Rightarrow> 'k \<Rightarrow> 'v \<Rightarrow> 'v" where
  "dict_get d k dflt = (case map_of d k of None \<Rightarrow> dflt | Some v \<Rightarrow> v)"

fun dict_set :: "('k \<times> 'v) list \<Rightarrow> 'k \<Rightarrow> 'v \<Rightarrow> ('k \<times> 'v) list" where
  "dict_set [] k v = [(k, v)]"
| "dict_set ((k', v') # d) k v = (if k' = k then (k, v) # d else (k', v') # dict_set d k v)"

text \<open>
  Strings are lists of code points below 256. The functions of the Python standard
  library that compute digests and print floats are parameters of the model:
  \<open>hashlib.sha3_256\<close> and \<open>hashlib.sha3_512\<close> (the 256-bit and 512-bit digest of a
  byte string), \<open>str\<close>/\<open>repr\<close> of a float, the product \<open>a * b\<close> and the difference
  \<open>a - b\<close> of two floats as the machine rounds them, and \<open>np.linalg.norm\<close> of a vector
  of floats. \<open>time.time()\<close> and \<open>uuid.uuid4()\<close> are arguments (\<open>now\<close>, an identifier)
  of the functions that call them; the clock readings of one call are one value.
\<close>

record pylib =
  sha3_256 :: "string \<Rightarrow> 256 word"
  sha3_512 :: "string \<Rightarrow> 512 word"
  float_str :: "real \<Rightarrow> string"
  float_mul :: "real \<Rightarrow> real \<Rightarrow> real"
  float_sub :: "real \<Rightarrow> real \<Rightarrow> real"
  np_norm :: "real list \<Rightarrow> real"


text \<open>\<open>str.encode()\<close>: UTF-8 of code points below 256.\<close>

definition encode_char :: "char \<Rightarrow> string" where
  "encode_char c = (let n = of_char c :: nat
     in if n < 128 then [c] else [char_of (192 + n div 64), char_of (128 + n mod 64)])"

definition encode :: "string \<Rightarrow> string" where
  "encode s = concat (map encode_char s)"

subsection \<open>json.dumps(obj, sort_keys=True)\<close>

definition digit_char :: "nat \<Rightarrow> char" where
  "digit_char n = ''0123456789'' ! (n mod 10)"

fun str_nat :: "nat \<Rightarrow> string" where
  "str_nat n = (if n < 10 then [digit_char n] else str_nat (n div 10) @ [digit_char n])"

declare str_nat.simps [simp del]

definition str_int :: "int \<Rightarrow> string" where
  "str_int i = (if i < 0 then CHR ''-'' # str_nat (nat (- i)) else str_nat (nat i))"

definition hex_digit :: "nat \<Rightarrow> char" where
  "hex_digit n = ''0123456789abcdef'' ! (n mod 16)"

text \<open>With \<open>ensure_ascii\<close> every character outside \<open>' '..'~'\<close>, the quote and the
  backslash are escaped.\<close>

definition json_escape_char :: "char \<Rightarrow> string" where
  "json_escape_char c = (let n = of_char c :: nat in
     if n = 34 then [CHR 0x5C, CHR 0x22]
     else if n = 92 then [CHR 0x5C, CHR 0x5C]
     else if n = 10 then [CHR 0x5C, CHR ''n'']
     else if n = 13 then [CHR 0x5C, CHR ''r'']
     else if n = 9 then [CHR 0x5C, CHR ''t'']
     else if n = 8 then [CHR 0x5C, CHR ''b'']
     else if n = 12 then [CHR 0x5C, CHR ''f'']
     else if n < 32 \<or> 126 < n
       then [CHR 0x5C, CHR ''u'', CHR ''0'', CHR ''0'', hex_digit (n div 16), hex_digit n]
     else [c])"

definition json_str :: "string \<Rightarrow> string" where
  "json_str s = [CHR 0x22] @ concat (map json_escape_char s) @ [CHR 0x22]"

text \<open>Keys are compared as Python compares strings: by code point, a proper prefix
  first.\<close>

fun str_le :: "string \<Rightarrow> string \<Rightarrow> bool" where
  "str_le [] t = True"
| "str_le (a # s) [] = False"
| "str_le (a # s) (b # t) =
     (if (of_char a :: nat) < of_char b then True
      else if (of_char b :: nat) < of_char a then False else str_le s t)"

fun insert_item :: "string \<times> 'a \<Rightarrow> (string \<times> 'a) list \<Rightarrow> (string \<times> 'a) list" where
  "insert_item kv [] = [kv]"
| "insert_item kv (x # xs) =
     (if str_le (fst x) (fst kv) then x # insert_item kv xs else kv # x # xs)"

definition sort_items :: "(string \<times> 'a) list \<Rightarrow> (string \<times> 'a) list" where
  "sort_items kvs = foldl (\<lambda>acc kv. insert_item kv acc) [] kvs"

fun join :: "string \<Rightarrow> string list \<Rightarrow> string" where
  "join sep [] = []"
| "join sep [x] = x"
| "join sep (x # y # ys) = x @ sep @ join sep (y # ys)"

fun json_dumps :: "pylib \<Rightarrow> jval \<Rightarrow> string" where
  "json_dumps L JNone = ''null''"
| "json_dumps L (JBool b) = (if b then ''true'' else ''false'')"
| "json_dumps L (JInt i) = str_int i"
| "json_dumps L (JFloat r) = float_str L r"
| "json_dumps L (JStr s) = json_str s"
| "json_dumps L (JList xs) = ''['' @ join '', '' (map (json_dumps L) xs) @ '']''"
| "json_dumps L (JDict kvs) =
     ''{'' @ join '', '' (map (\<lambda>(k, v). json_str k @ '': '' @ v)
                         (sort_items (map (\<lambda>(k, v). (k, json_dumps L v)) kvs))) @ ''}''"

text \<open>\<open>hashlib.sha3_256(s.encode()).hexdigest()\<close>: the digest in lowercase
  hexadecimal, four bits a character.\<close>

fun hex_digits :: "nat \<Rightarrow> nat \<Rightarrow> string" where
  "hex_digits 0 n = []"
| "hex_digits (Suc k) n = hex_digits k (n div 16) @ [hex_digit n]"

definition hexdigest :: "'a::len word \<Rightarrow> string" where
  "hexdigest w = hex_digits (LENGTH('a) div 4) (unat w)"

definition sha3_256_hex :: "pylib \<Rightarrow> string \<Rightarrow> string" where
  "sha3_256_hex L s = hexdigest (sha3_256 L (encode s))"

definition sha3_512_hex :: "pylib \<Rightarrow> string \<Rightarrow> string" where
  "sha3_512_hex L s = hexdigest (sha3_512 L (encode s))"

section \<open>Proof chain (proof_chain.py)\<close>

datatype ProofType = INPUT | OPERATION | VERIFICATION | OUTPUT | SIGNATURE

datatype VerificationStatus = VALID | INVALID | PENDING_V | EXPIRED

record DeterministicReceipt =
  receipt_id :: string
  operation_hash :: string
  input_hash :: string
  output_hash :: string
  proof_chain :: "string list"
  execution_time :: real
  entropy_measure :: jval
  is_deterministic :: bool
  timestamp :: real
  metadata :: "(string \<times> jval) list"

record ProofStep =
  step_id :: string
  proof_type :: ProofType
  data :: "(string \<times> jval) list"
  hash_value :: string
  previous_hash :: string
  step_timestamp :: real
  operator_signature :: "string option"

text \<open>\<open>ExecutionRecord\<close> is a dataclass with these flds and no method.\<close>

record ExecutionRecord =
  record_id :: string
  operation_type :: string
  rec_inputs :: "(string \<times> jval) list"
  rec_outputs :: "(string \<times> jval) list"
  execution_hosts :: "string list"
  consensus_value :: jval
  rec_is_deterministic :: bool
  started_at :: real
  completed_at :: "real option"
  rec_entropy_measure :: real

record ProofChainGenerator =
  chains :: "(string \<times> ProofStep list) list"

text \<open>\<open>DeterministicReceipt.verify\<close>. \<open>hmac.compare_digest\<close> on two ASCII strings is
  their equality.\<close>

definition receipt_verify :: "pylib \<Rightarrow> DeterministicReceipt \<Rightarrow> bool" where
  "receipt_verify L r =
     (let chain_data = concat (proof_chain r);
          expected_hash = take 32 (sha3_256_hex L chain_data)
      in operation_hash r = expected_hash \<and> is_deterministic r)"

definition genesis_hash :: string where
  "genesis_hash = replicate 64 (CHR ''0'')"

text \<open>
  \<open>ProofChainGenerator.create_proof_chain\<close>. With an execution record the third step
  calls \<open>execution_record.to_dict()\<close>, which \<open>ExecutionRecord\<close> does not have: the call
  raises AttributeError before the generator's registry is written.
\<close>

definition create_proof_chain ::
  "pylib \<Rightarrow> ProofChainGenerator \<Rightarrow> string \<Rightarrow> real \<Rightarrow> string \<Rightarrow> (string \<times> jval) list \<Rightarrow>
   (string \<times> jval) list \<Rightarrow> string \<Rightarrow> ExecutionRecord option \<Rightarrow>
   exn + (ProofStep list \<times> ProofChainGenerator)" where
  "create_proof_chain L g chain_id now op_type inputs outputs operator_id execution_record =
     (let previous_hash0 = genesis_hash;
          input_data = json_dumps L (JDict inputs);
          input_hash = sha3_256_hex L input_data;
          input_step = \<lparr>step_id = chain_id @ ''_input'', proof_type = INPUT,
            data = [(''inputs'', JDict inputs)], hash_value = input_hash,
            previous_hash = previous_hash0, step_timestamp = now, operator_signature = None\<rparr>;
          operation_data = json_dumps L
            (JDict [(''operation_type'', JStr op_type), (''input_hash'', JStr input_hash)]);
          operation_hash = sha3_256_hex L operation_data;
          operation_step = \<lparr>step_id = chain_id @ ''_operation'', proof_type = OPERATION,
            data = [(''operation_type'', JStr op_type)], hash_value = operation_hash,
            previous_hash = input_hash, step_timestamp = now, operator_signature = None\<rparr>
      in case execution_record of
           Some r \<Rightarrow> Inl AttributeError
         | None \<Rightarrow>
            (let verification_data = json_dumps L
                   (JDict [(''input_hash'', JStr input_hash),
                           (''operation_hash'', JStr operation_hash),
                           (''execution_record'', JDict [])]);
                 verification_hash = sha3_256_hex L verification_data;
                 verification_step = \<lparr>step_id = chain_id @ ''_verification'',
                   proof_type = VERIFICATION,
                   data = [(''is_deterministic'', JBool True), (''entropy_measure'', JFloat 0)],
                   hash_value = verification_hash, previous_hash = operation_hash,
                   step_timestamp = now, operator_signature = None\<rparr>;
                 output_data = json_dumps L (JDict outputs);
                 output_hash = sha3_256_hex L output_data;
                 output_step = \<lparr>step_id = chain_id @ ''_output'', proof_type = OUTPUT,
                   data = [(''outputs'', JDict outputs)], hash_value = output_hash,
                   previous_hash = verification_hash, step_timestamp = now,
                   operator_signature = None\<rparr>;
                 signature_data = output_hash @ operator_id;
                 signature_hash = sha3_512_hex L signature_data;
                 signature_step = \<lparr>step_id = chain_id @ ''_signature'', proof_type = SIGNATURE,
                   data = [(''operator_id'', JStr operator_id)], hash_value = signature_hash,
                   previous_hash = output_hash, step_timestamp = now,
                   operator_signature = Some signature_hash\<rparr>;
                 chain = [input_step, operation_step, verification_step, output_step,
                          signature_step]
             in Inr (chain, g\<lparr>chains := dict_set (chains g) chain_id chain\<rparr>)))"

text \<open>\<open>ProofChainGenerator.generate_receipt\<close>. \<open>chain[-2]\<close> raises IndexError on a
  chain of fewer than two steps.\<close>

definition generate_receipt ::
  "pylib \<Rightarrow> string \<Rightarrow> real \<Rightarrow> ProofStep list \<Rightarrow> (string \<times> jval) list \<Rightarrow>
   (string \<times> jval) list \<Rightarrow> real \<Rightarrow> exn + DeterministicReceipt" where
  "generate_receipt L rid now chain inputs outputs exec_time =
     (let input_data = json_dumps L (JDict inputs);
          input_hash = sha3_256_hex L input_data;
          output_data = json_dumps L (JDict outputs);
          output_hash = sha3_256_hex L output_data
      in if length chain < 2 then Inl IndexError
         else
          (let operation_hash = hash_value (chain ! (length chain - 2));
               proof_chain = map hash_value chain;
               entropy_measure =
                 (case find (\<lambda>s. proof_type s = VERIFICATION) chain of
                    Some verification_step \<Rightarrow>
                      dict_get (data verification_step) ''entropy_measure'' (JFloat 0)
                  | None \<Rightarrow> JFloat 0);
               is_deterministic = eq_zero entropy_measure
           in Inr \<lparr>receipt_id = rid, operation_hash = operation_hash,
                    input_hash = input_hash, output_hash = output_hash,
                    proof_chain = proof_chain, execution_time = exec_time,
                    entropy_measure = entropy_measure, is_deterministic = is_deterministic,
                    timestamp = now, metadata = []\<rparr>))"

text \<open>\<open>C0Verifier\<close>: the verifier keeps a history of verification records.\<close>

record VerificationRecord =
  vr_receipt_id :: string
  vr_timestamp :: real
  vr_is_valid :: bool
  vr_status :: VerificationStatus
  vr_is_deterministic :: bool
  vr_entropy_measure :: jval

record C0Verifier =
  verification_history :: "VerificationRecord list"

fun verify_chain_integrity :: "ProofStep list \<Rightarrow> bool" where
  "verify_chain_integrity [] = True"
| "verify_chain_integrity [s] = True"
| "verify_chain_integrity (s # t # rest) =
     (if previous_hash t \<noteq> hash_value s then False else verify_chain_integrity (t # rest))"

definition verify_receipt :: "ProofStep list \<Rightarrow> DeterministicReceipt \<Rightarrow> bool" where
  "verify_receipt chain receipt =
     (case find (\<lambda>s. proof_type s = OPERATION) chain of
        None \<Rightarrow> False
      | Some operation_step \<Rightarrow>
          if operation_hash receipt \<noteq> hash_value operation_step then False
          else if proof_chain receipt \<noteq> map hash_value chain then False
          else True)"

definition verify_proof_chain ::
  "C0Verifier \<Rightarrow> real \<Rightarrow> ProofStep list \<Rightarrow> DeterministicReceipt \<Rightarrow>
   (bool \<times> VerificationStatus) \<times> C0Verifier" where
  "verify_proof_chain v now chain receipt =
     (let is_valid_chain = verify_chain_integrity chain;
          is_valid_receipt = verify_receipt chain receipt;
          is_det = (is_deterministic receipt \<and> eq_zero (entropy_measure receipt));
          status = (if is_valid_chain \<and> is_valid_receipt \<and> is_det then VALID
                    else if is_valid_chain \<and> is_valid_receipt then INVALID
                    else INVALID);
          verification_record = \<lparr>vr_receipt_id = receipt_id receipt, vr_timestamp = now,
            vr_is_valid = (status = VALID), vr_status = status, vr_is_deterministic = is_det,
            vr_entropy_measure = entropy_measure receipt\<rparr>
      in ((status = VALID, status),
          v\<lparr>verification_history := verification_history v @ [verification_record]\<rparr>))"

text \<open>What the verifier reads of a chain: the type, hash and previous hash of each
  step. The payload, identifier and timestamp of a step are never read.\<close>

definition steps_view :: "ProofStep list \<Rightarrow> (ProofType \<times> string \<times> string) list" where
  "steps_view chain = map (\<lambda>s. (proof_type s, hash_value s, previous_hash s)) chain"

section \<open>Inevitability gate (inevitability_gate.py)\<close>

text \<open>
  A stage context is a \<open>Dict[str, Any]\<close>; besides data it holds the shadow execution
  logic, a callable of the stage parameters and a host name.
\<close>

datatype pyval = Data jval | Callable "jval \<Rightarrow> string \<Rightarrow> exn + jval"

type_synonym stage_context = "string \<rightharpoonup> pyval"

datatype GateStage = REGISTRATION | SHADOWING | CHALLENGE_WINDOW | CANARY_ROLLOUT | FINAL_PERMIT

datatype StageStatus = PENDING | IN_PROGRESS | COMPLETED | FAILED | SKIPPED

fun stage_value :: "GateStage \<Rightarrow> string" where
  "stage_value REGISTRATION = ''registration''"
| "stage_value SHADOWING = ''shadowing''"
| "stage_value CHALLENGE_WINDOW = ''challenge_window''"
| "stage_value CANARY_ROLLOUT = ''canary_rollout''"
| "stage_value FINAL_PERMIT = ''final_permit''"

fun stage_str :: "GateStage \<Rightarrow> string" where
  "stage_str REGISTRATION = ''GateStage.REGISTRATION''"
| "stage_str SHADOWING = ''GateStage.SHADOWING''"
| "stage_str CHALLENGE_WINDOW = ''GateStage.CHALLENGE_WINDOW''"
| "stage_str CANARY_ROLLOUT = ''GateStage.CANARY_ROLLOUT''"
| "stage_str FINAL_PERMIT = ''GateStage.FINAL_PERMIT''"

record StageExecution =
  se_stage :: GateStage
  se_status :: StageStatus
  se_started_at :: real
  se_completed_at :: "real option"
  se_result :: "jval option"
  se_error :: "string option"
  se_proof_data :: "string option"

record GateExecution =
  execution_id :: string
  intent_hash :: jval
  ge_operator_id :: string
  target_fixed_point :: "real list"
  stages :: "GateStage \<rightharpoonup> StageExecution"
  ge_created_at :: real
  ge_completed_at :: "real option"
  is_approved :: bool
  liquidity_released :: jval
  ge_context :: stage_context

definition get_stage_status :: "GateExecution \<Rightarrow> GateStage \<Rightarrow> StageStatus" where
  "get_stage_status e s = (case stages e s of Some se \<Rightarrow> se_status se | None \<Rightarrow> PENDING)"

definition required_stages :: "GateStage list" where
  "required_stages = [REGISTRATION, SHADOWING, CHALLENGE_WINDOW, CANARY_ROLLOUT, FINAL_PERMIT]"

definition is_complete :: "GateExecution \<Rightarrow> bool" where
  "is_complete e = list_all (\<lambda>s. get_stage_status e s = COMPLETED) required_stages"

text \<open>A stage executor: \<open>validate(context) -> (ok, reason)\<close> and
  \<open>execute(context) -> (ok, result)\<close>, either of which may raise. The first component
  of \<open>execute\<close> is the truth value of the returned success flag.\<close>

record StageExecutor =
  validate :: "stage_context \<Rightarrow> exn + (bool \<times> string option)"
  execute :: "stage_context \<Rightarrow> exn + (bool \<times> jval)"

text \<open>\<open>json.dumps\<close> raises TypeError on a callable.\<close>

fun to_data :: "pyval \<Rightarrow> exn + jval" where
  "to_data (Data j) = Inr j"
| "to_data (Callable f) = Inl TypeError"

text \<open>\<open>ctx.get(k)\<close> for the final permit's execution data; a callable there is not
  serialisable.\<close>

definition ctx_get_data :: "stage_context \<Rightarrow> string \<Rightarrow> exn + jval" where
  "ctx_get_data ctx k = (case ctx k of None \<Rightarrow> Inr JNone | Some v \<Rightarrow> to_data v)"

subsection \<open>Stage 1: registration\<close>

definition missing_field :: "string \<Rightarrow> string" where
  "missing_field f = ''Missing required field: '' @ f"

fun validate_required :: "string list \<Rightarrow> stage_context \<Rightarrow> exn + (bool \<times> string option)" where
  "validate_required [] ctx = Inr (True, None)"
| "validate_required (f # fs) ctx =
     (if ctx f = None then Inr (False, Some (missing_field f)) else validate_required fs ctx)"

definition Registration_validate :: "stage_context \<Rightarrow> exn + (bool \<times> string option)" where
  "Registration_validate ctx =
     validate_required [''operator_id'', ''parameters'', ''target_fixed_point''] ctx"

text \<open>
  \<open>RegistrationExecutor.execute\<close> serialises \<open>context["parameters"]\<close>, appends
  \<open>context["operator_id"]\<close> and passes the resulting \<open>str\<close> to \<open>hashlib.sha3_256\<close>
  without encoding it. \<open>hashlib\<close> accepts bytes only and raises TypeError on a \<open>str\<close>
  (the concatenation itself raises TypeError when the operator id is not a \<open>str\<close>), so
  the statements after the digest are never reached.
\<close>

definition Registration_execute :: "pylib \<Rightarrow> stage_context \<Rightarrow> exn + (bool \<times> jval)" where
  "Registration_execute L ctx =
     (case ctx ''parameters'' of
        None \<Rightarrow> Inl KeyError
      | Some p \<Rightarrow>
         (case to_data p of
            Inl e \<Rightarrow> Inl e
          | Inr j \<Rightarrow>
             (let intent_data = json_dumps L j
              in case ctx ''operator_id'' of
                   None \<Rightarrow> Inl KeyError
                 | Some operator_id \<Rightarrow> Inl TypeError)))"

definition RegistrationExecutor :: "pylib \<Rightarrow> StageExecutor" where
  "RegistrationExecutor L = \<lparr>validate = Registration_validate, execute = Registration_execute L\<rparr>"

subsection \<open>Stage 2: shadowing\<close>

definition Shadowing_validate :: "stage_context \<Rightarrow> exn + (bool \<times> string option)" where
  "Shadowing_validate ctx =
     (if ctx ''execution_logic'' = None then Inr (False, Some ''Missing execution logic for shadowing'')
      else Inr (True, None))"

text \<open>Calling the execution logic: a value that is not callable raises TypeError. The
  modelled callables take data; a callable passed as the parameters is outside the
  model and is answered with TypeError as well.\<close>

definition call_logic :: "pyval \<Rightarrow> pyval \<Rightarrow> string \<Rightarrow> exn + jval" where
  "call_logic logic params host_id =
     (case logic of
        Data d \<Rightarrow> Inl TypeError
      | Callable f \<Rightarrow> (case params of Data p \<Rightarrow> f p host_id | Callable g \<Rightarrow> Inl TypeError))"

fun run_hosts :: "pyval \<Rightarrow> pyval \<Rightarrow> string list \<Rightarrow> exn + (string \<times> jval) list" where
  "run_hosts logic params [] = Inr []"
| "run_hosts logic params (h # hs) =
     (case call_logic logic params h of
        Inl e \<Rightarrow> Inl e
      | Inr r \<Rightarrow> (case run_hosts logic params hs of
                    Inl e \<Rightarrow> Inl e
                  | Inr rs \<Rightarrow> Inr ((h, r) # rs)))"

text \<open>\<open>ShadowExecution.verify_determinism\<close>.\<close>

definition verify_determinism :: "pylib \<Rightarrow> (string \<times> jval) list \<Rightarrow> bool" where
  "verify_determinism L results =
     (case results of
        [] \<Rightarrow> False
      | (h, r) # rest \<Rightarrow>
          (let first_result = json_dumps L r
           in list_all (\<lambda>(host_id, result). first_result = json_dumps L result) results))"

definition host_names :: "nat \<Rightarrow> string list" where
  "host_names n = map (\<lambda>i. ''host_'' @ str_nat i) [0..<n]"

definition Shadowing_execute :: "pylib \<Rightarrow> nat \<Rightarrow> stage_context \<Rightarrow> exn + (bool \<times> jval)" where
  "Shadowing_execute L num_hosts ctx =
     (case ctx ''execution_logic'' of
        None \<Rightarrow> Inl KeyError
      | Some execution_logic \<Rightarrow>
         (let execution_params = (case ctx ''params'' of None \<Rightarrow> Data (JDict []) | Some p \<Rightarrow> p);
              hosts = host_names num_hosts
          in case run_hosts execution_logic execution_params hosts of
               Inl e \<Rightarrow> Inl e
             | Inr results \<Rightarrow>
                (let is_det = verify_determinism L results
                 in Inr (is_det, JDict [(''execution_hosts'', JList (map JStr hosts)),
                                        (''results'', JDict results),
                                        (''is_deterministic'', JBool is_det),
                                        (''zeef_confirmed'', JBool is_det)]))))"

definition ShadowingExecutor :: "pylib \<Rightarrow> nat \<Rightarrow> StageExecutor" where
  "ShadowingExecutor L num_hosts =
     \<lparr>validate = Shadowing_validate, execute = Shadowing_execute L num_hosts\<rparr>"

subsection \<open>Stage 3: challenge window\<close>

definition Challenge_validate :: "stage_context \<Rightarrow> exn + (bool \<times> string option)" where
  "Challenge_validate ctx =
     (if ctx ''shadow_result'' = None then Inr (False, Some ''Missing shadow execution result'')
      else Inr (True, None))"

definition Challenge_execute :: "real \<Rightarrow> real \<Rightarrow> stage_context \<Rightarrow> exn + (bool \<times> jval)" where
  "Challenge_execute review_time now ctx =
     (case ctx ''shadow_result'' of
        None \<Rightarrow> Inl KeyError
      | Some (Callable f) \<Rightarrow> Inl AttributeError
      | Some (Data (JDict shadow_result)) \<Rightarrow>
         (let is_resolved = dict_get shadow_result ''is_deterministic'' (JBool False);
              resolution = (if truthy (dict_get shadow_result ''is_deterministic'' JNone)
                            then ''Deterministic execution confirmed''
                            else ''Non-deterministic result detected'')
          in Inr (truthy is_resolved,
                  JDict [(''challenge'', JDict [(''challenger_id'', JStr ''SYSTEM''),
                                               (''challenge_type'', JStr ''AUTO_VERIFICATION''),
                                               (''is_resolved'', is_resolved),
                                               (''resolution'', JStr resolution),
                                               (''timestamp'', JFloat now)]),
                         (''review_time'', JFloat review_time)]))
      | Some (Data other) \<Rightarrow> Inl AttributeError)"

definition ChallengeExecutor :: "real \<Rightarrow> real \<Rightarrow> StageExecutor" where
  "ChallengeExecutor review_time now =
     \<lparr>validate = Challenge_validate, execute = Challenge_execute review_time now\<rparr>"

subsection \<open>Stage 4: canary rollout\<close>

text \<open>\<open>v <= 0\<close>: defined on numbers (\<open>bool\<close> is an \<open>int\<close>); on \<open>None\<close>, a string, a
  list, a dict or a callable Python 3 raises TypeError.\<close>

fun le_zero :: "pyval \<Rightarrow> exn + bool" where
  "le_zero (Data (JInt i)) = Inr (i \<le> 0)"
| "le_zero (Data (JFloat r)) = Inr (r \<le> 0)"
| "le_zero (Data (JBool b)) = Inr (\<not> b)"
| "le_zero v = Inl TypeError"

definition Canary_validate :: "stage_context \<Rightarrow> exn + (bool \<times> string option)" where
  "Canary_validate ctx =
     (case ctx ''amount'' of
        None \<Rightarrow> Inr (False, Some ''Invalid or missing amount for canary release'')
      | Some amount \<Rightarrow>
         (case le_zero amount of
            Inl e \<Rightarrow> Inl e
          | Inr b \<Rightarrow> if b then Inr (False, Some ''Invalid or missing amount for canary release'')
                     else Inr (True, None)))"

text \<open>\<open>a * b\<close> on numbers; the product of two ints is an int, any float makes it a
  float. A sequence repeated by an int (\<open>"ab" * 2\<close>) is not a number the canary stage
  can release and is not modelled: every other product raises TypeError here.\<close>

fun as_int :: "jval \<Rightarrow> int option" where
  "as_int (JInt i) = Some i"
| "as_int (JBool b) = Some (if b then 1 else 0)"
| "as_int v = None"

fun as_real :: "jval \<Rightarrow> real option" where
  "as_real (JFloat r) = Some r"
| "as_real v = map_option real_of_int (as_int v)"

definition py_mul :: "jval \<Rightarrow> jval \<Rightarrow> exn + jval" where
  "py_mul a b =
     (case (as_int a, as_int b) of
        (Some i, Some j) \<Rightarrow> Inr (JInt (i * j))
      | _ \<Rightarrow> (case (as_real a, as_real b) of
                (Some x, Some y) \<Rightarrow> Inr (JFloat (x * y))
              | _ \<Rightarrow> Inl TypeError))"

definition monitored_metrics :: "(string \<times> real) list" where
  "monitored_metrics = [(''success_rate'', 0.99), (''latency_ms'', 45.2),
                        (''error_rate'', 0.001), (''memory_usage'', 0.45)]"

definition Canary_execute :: "stage_context \<Rightarrow> exn + (bool \<times> jval)" where
  "Canary_execute ctx =
     (case ctx ''amount'' of
        None \<Rightarrow> Inl KeyError
      | Some total_amount \<Rightarrow>
         (let canary_percentage =
                (case ctx ''canary_percentage'' of None \<Rightarrow> Data (JFloat 0.01) | Some p \<Rightarrow> p)
          in case (to_data total_amount, to_data canary_percentage) of
               (Inr t, Inr p) \<Rightarrow>
                 (case py_mul t p of
                    Inl e \<Rightarrow> Inl e
                  | Inr canary_amount \<Rightarrow>
                     (let is_stable = (dict_get monitored_metrics ''success_rate'' 0 > 0.95 \<and>
                                       dict_get monitored_metrics ''error_rate'' 0 < 0.05)
                      in case py_mul p (JInt 100) of
                           Inl e \<Rightarrow> Inl e
                         | Inr release_percentage \<Rightarrow>
                            Inr (is_stable,
                                 JDict [(''release_amount'', canary_amount),
                                        (''release_percentage'', release_percentage),
                                        (''is_stable'', JBool is_stable),
                                        (''monitored_metrics'',
                                           JDict (map (\<lambda>(k, v). (k, JFloat v)) monitored_metrics)),
                                        (''systemic_instability_detected'', JBool (\<not> is_stable))])))
             | _ \<Rightarrow> Inl TypeError))"

definition CanaryExecutor :: StageExecutor where
  "CanaryExecutor = \<lparr>validate = Canary_validate, execute = Canary_execute\<rparr>"

subsection \<open>Stage 5: final permit\<close>

definition FinalPermit_validate :: "stage_context \<Rightarrow> exn + (bool \<times> string option)" where
  "FinalPermit_validate ctx = validate_required [''did'', ''bio_hash'', ''operator_id''] ctx"

text \<open>\<open>FinalPermitExecutor.execute\<close> with \<open>FinalPermit.create\<close>. The three indexed
  flds raise KeyError when absent; serialising a callable and appending a fingerprint
  that is not a string raise TypeError.\<close>

fun sequence_data :: "(string \<times> (exn + jval)) list \<Rightarrow> exn + (string \<times> jval) list" where
  "sequence_data [] = Inr []"
| "sequence_data ((k, r) # rest) =
     (case r of
        Inl e \<Rightarrow> Inl e
      | Inr v \<Rightarrow> (case sequence_data rest of Inl e \<Rightarrow> Inl e | Inr vs \<Rightarrow> Inr ((k, v) # vs)))"

definition FinalPermit_execute :: "pylib \<Rightarrow> real \<Rightarrow> stage_context \<Rightarrow> exn + (bool \<times> jval)" where
  "FinalPermit_execute L now ctx =
     (case (ctx ''operator_id'', ctx ''did'', ctx ''bio_hash'') of
        (Some operator_id, Some did, Some bio_hash) \<Rightarrow>
          (case sequence_data
                  [(''operator_id'', to_data operator_id),
                   (''did'', to_data did),
                   (''intent_hash'', ctx_get_data ctx ''intent_hash''),
                   (''shadow_result'', ctx_get_data ctx ''shadow_result''),
                   (''challenge_result'', ctx_get_data ctx ''challenge_result''),
                   (''canary_result'', ctx_get_data ctx ''canary_result''),
                   (''target_fixed_point'', ctx_get_data ctx ''target_fixed_point'')] of
             Inl e \<Rightarrow> Inl e
           | Inr flds \<Rightarrow>
              (let signed_data = json_dumps L
                     (JDict [(''operator_id'', dict_get flds ''operator_id'' JNone),
                             (''did'', dict_get flds ''did'' JNone),
                             (''execution_data'', JDict (drop 2 flds)),
                             (''timestamp'', JFloat now)])
               in case bio_hash of
                    Data (JStr bh) \<Rightarrow>
                      (let permit_hash = sha3_256_hex L (signed_data @ bh);
                           operator_signature = sha3_512_hex L (permit_hash @ bh)
                       in Inr (True,
                               JDict [(''operator_signature'', JStr operator_signature),
                                      (''signed_data'', JStr signed_data),
                                      (''did'', dict_get flds ''did'' JNone),
                                      (''bio_hash'', JStr bh),
                                      (''timestamp'', JFloat now),
                                      (''permit_hash'', JStr permit_hash),
                                      (''is_approved'', JBool True)]))
                  | _ \<Rightarrow> Inl TypeError))
      | _ \<Rightarrow> Inl KeyError)"

definition FinalPermitExecutor :: "pylib \<Rightarrow> real \<Rightarrow> StageExecutor" where
  "FinalPermitExecutor L now =
     \<lparr>validate = FinalPermit_validate, execute = FinalPermit_execute L now\<rparr>"

subsection \<open>The gate\<close>

record InevitabilityGate =
  auditor_review_time :: real
  canary_percentage :: real
  num_shadow_hosts :: nat
  executors :: "GateStage \<rightharpoonup> StageExecutor"
  executions :: "string \<rightharpoonup> GateExecution"

text \<open>\<open>InevitabilityGate.__init__\<close>: the five executors of the source.\<close>

definition InevitabilityGate_init :: "pylib \<Rightarrow> real \<Rightarrow> real \<Rightarrow> real \<Rightarrow> nat \<Rightarrow> InevitabilityGate" where
  "InevitabilityGate_init L now review_time canary_pct num_hosts =
     \<lparr>auditor_review_time = review_time, canary_percentage = canary_pct,
      num_shadow_hosts = num_hosts,
      executors = [REGISTRATION \<mapsto> RegistrationExecutor L,
                   SHADOWING \<mapsto> ShadowingExecutor L num_hosts,
                   CHALLENGE_WINDOW \<mapsto> ChallengeExecutor review_time now,
                   CANARY_ROLLOUT \<mapsto> CanaryExecutor,
                   FINAL_PERMIT \<mapsto> FinalPermitExecutor L now],
      executions = Map.empty\<rparr>"

text \<open>\<open>initiate_gate\<close>: a fresh execution record (not approved, nothing released) and
  its stage context.\<close>

definition initiate_gate ::
  "InevitabilityGate \<Rightarrow> string \<Rightarrow> real \<Rightarrow> string \<Rightarrow> real list \<Rightarrow> (string \<times> jval) list \<Rightarrow>
   string \<Rightarrow> jval \<Rightarrow> InevitabilityGate" where
  "initiate_gate g eid now operator_id tfp parameters transaction_type amount =
     (let execution = \<lparr>execution_id = eid, intent_hash = JStr '''', ge_operator_id = operator_id,
            target_fixed_point = tfp, stages = Map.empty, ge_created_at = now,
            ge_completed_at = None, is_approved = False, liquidity_released = JFloat 0,
            ge_context =
              [''operator_id'' \<mapsto> Data (JStr operator_id),
               ''target_fixed_point'' \<mapsto> Data (JList (map JFloat tfp)),
               ''parameters'' \<mapsto> Data (JDict parameters),
               ''transaction_type'' \<mapsto> Data (JStr transaction_type),
               ''amount'' \<mapsto> Data amount,
               ''canary_percentage'' \<mapsto> Data (JFloat (canary_percentage g))]\<rparr>
      in g\<lparr>executions := (executions g)(eid \<mapsto> execution)\<rparr>)"

definition put_execution :: "InevitabilityGate \<Rightarrow> string \<Rightarrow> GateExecution \<Rightarrow> InevitabilityGate" where
  "put_execution g eid e = g\<lparr>executions := (executions g)(eid \<mapsto> e)\<rparr>"

text \<open>
  \<open>execute_stage\<close>. The result pairs what the call returns or raises with the gate as
  the call leaves it: an exception raised by \<open>validate\<close> or \<open>execute\<close> leaves the
  execution record untouched; the \<open>result.get\<close> after a successful registration
  raises AttributeError on a result that is not a dict, after the stage was recorded.
\<close>

definition execute_stage ::
  "pylib \<Rightarrow> InevitabilityGate \<Rightarrow> string \<Rightarrow> GateStage \<Rightarrow> stage_context \<Rightarrow> real \<Rightarrow>
   (exn + (bool \<times> StageExecution)) \<times> InevitabilityGate" where
  "execute_stage L g eid stage kwargs now =
     (case executions g eid of
        None \<Rightarrow> (Inl ValueError, g)
      | Some execution \<Rightarrow>
         (let stage_exec = \<lparr>se_stage = stage, se_status = IN_PROGRESS, se_started_at = now,
                se_completed_at = None, se_result = None, se_error = None,
                se_proof_data = None\<rparr>;
              ctx = ge_context execution ++ kwargs
          in case executors g stage of
               None \<Rightarrow>
                 (let se = stage_exec\<lparr>se_status := FAILED,
                                       se_error := Some (''No executor for stage: '' @ stage_str stage)\<rparr>
                  in (Inr (False, se),
                      put_execution g eid (execution\<lparr>stages := (stages execution)(stage \<mapsto> se)\<rparr>)))
             | Some executor \<Rightarrow>
                 (case validate executor ctx of
                    Inl e \<Rightarrow> (Inl e, g)
                  | Inr (is_valid, err) \<Rightarrow>
                     if \<not> is_valid then
                       (let se = stage_exec\<lparr>se_status := FAILED, se_error := err\<rparr>
                        in (Inr (False, se),
                            put_execution g eid
                              (execution\<lparr>stages := (stages execution)(stage \<mapsto> se)\<rparr>)))
                     else
                       (case execute executor ctx of
                          Inl e \<Rightarrow> (Inl e, g)
                        | Inr (success, result) \<Rightarrow>
                           (let se1 = stage_exec\<lparr>se_completed_at := Some now,
                                  se_result := Some result,
                                  se_proof_data :=
                                    (if truthy result then Some (json_dumps L result) else None)\<rparr>;
                                se2 = se1\<lparr>se_status := (if success then COMPLETED else FAILED)\<rparr>;
                                execution1 =
                                  (if success
                                   then execution\<lparr>ge_context :=
                                          ctx(stage_value stage @ ''_result'' \<mapsto> Data result)\<rparr>
                                   else execution);
                                execution2 = execution1\<lparr>stages := (stages execution1)(stage \<mapsto> se2)\<rparr>
                            in if stage = REGISTRATION \<and> success then
                                 (case result of
                                    JDict d \<Rightarrow>
                                      (Inr (success, se2),
                                       put_execution g eid
                                         (execution2\<lparr>intent_hash :=
                                            dict_get d ''intent_hash'' (JStr '''')\<rparr>))
                                  | _ \<Rightarrow> (Inl AttributeError, put_execution g eid execution2))
                               else (Inr (success, se2), put_execution g eid execution2))))))"

text \<open>The loop of \<open>execute_full_gate\<close> over the stages that are left: it stops at the
  first stage that raises or reports no success.\<close>

fun run_stages ::
  "pylib \<Rightarrow> real \<Rightarrow> string \<Rightarrow> GateStage list \<Rightarrow> InevitabilityGate \<Rightarrow>
   (exn + bool) \<times> InevitabilityGate" where
  "run_stages L now eid [] g = (Inr True, g)"
| "run_stages L now eid (stage # rest) g =
     (case execute_stage L g eid stage Map.empty now of
        (Inl e, g') \<Rightarrow> (Inl e, g')
      | (Inr (success, stage_exec), g') \<Rightarrow>
          if \<not> success then (Inr False, g') else run_stages L now eid rest g')"

definition gate_stages :: "GateStage list" where
  "gate_stages = [REGISTRATION, SHADOWING, CHALLENGE_WINDOW, CANARY_ROLLOUT, FINAL_PERMIT]"

text \<open>
  \<open>execute_full_gate\<close>. \<open>self._executions[execution_id]\<close> is the record that
  \<open>initiate_gate\<close> has just stored; the \<open>None\<close> branches below cannot be taken.
\<close>

definition execute_full_gate ::
  "pylib \<Rightarrow> InevitabilityGate \<Rightarrow> string \<Rightarrow> real \<Rightarrow> string \<Rightarrow> real list \<Rightarrow>
   (string \<times> jval) list \<Rightarrow> pyval \<Rightarrow> string \<Rightarrow> jval \<Rightarrow> string \<Rightarrow> string \<Rightarrow>
   (exn + (bool \<times> GateExecution)) \<times> InevitabilityGate" where
  "execute_full_gate L g eid now operator_id tfp parameters execution_logic transaction_type
     amount did bio_hash =
     (let g0 = initiate_gate g eid now operator_id tfp parameters transaction_type amount
      in case executions g0 eid of
           None \<Rightarrow> (Inl KeyError, g0)
         | Some execution0 \<Rightarrow>
            (let g1 = put_execution g0 eid
                   (execution0\<lparr>ge_context := (ge_context execution0)
                       (''did'' \<mapsto> Data (JStr did), ''bio_hash'' \<mapsto> Data (JStr bio_hash),
                        ''execution_logic'' \<mapsto> execution_logic)\<rparr>)
             in case run_stages L now eid gate_stages g1 of
                  (Inl e, g2) \<Rightarrow> (Inl e, g2)
                | (Inr all_passed, g2) \<Rightarrow>
                   (case executions g2 eid of
                      None \<Rightarrow> (Inl KeyError, g2)
                    | Some execution \<Rightarrow>
                       if \<not> all_passed then
                         (let execution' = execution\<lparr>ge_completed_at := Some now\<rparr>
                          in (Inr (False, execution'), put_execution g2 eid execution'))
                       else
                         (let execution1 = execution\<lparr>is_approved := True,
                                                       ge_completed_at := Some now\<rparr>;
                              canary_result =
                                (case ge_context execution1 ''canary_rollout_result'' of
                                   None \<Rightarrow> Data (JDict [])
                                 | Some r \<Rightarrow> r)
                          in case canary_result of
                               Data (JDict d) \<Rightarrow>
                                 (let execution2 = execution1\<lparr>liquidity_released :=
                                        dict_get d ''release_amount'' (JFloat 0)\<rparr>
                                  in (Inr (True, execution2), put_execution g2 eid execution2))
                             | _ \<Rightarrow> (Inl AttributeError, put_execution g2 eid execution1)))))"

section \<open>Shield orchestrator (core.py)\<close>

datatype ShieldStatus = ACTIVE | COMPROMISED | LOCKED | MAINTENANCE | INITIALIZING

datatype NodeStatus = PROTECTED | EXPOSED | QUARANTINED | DEGRADED

record WealthNode =
  node_id :: string
  wn_operator_id :: string
  wn_did :: string
  wn_bio_hash :: string
  wn_status :: NodeStatus
  balance :: real
  frozen_balance :: real
  wn_created_at :: real
  last_verified :: real
  wn_metadata :: "(string \<times> jval) list"

definition can_transact :: "WealthNode \<Rightarrow> real \<Rightarrow> bool" where
  "can_transact n amount =
     (let available = balance n - frozen_balance n
      in wn_status n = PROTECTED \<and> available \<ge> amount)"

record CapitalFlowVector =
  vector_id :: string
  source_node_id :: string
  target_node_id :: string
  cf_amount :: real
  cf_status :: string
  gate_execution_id :: "string option"
  cf_receipt :: "DeterministicReceipt option"
  cf_created_at :: real
  executed_at :: "real option"
  cf_metadata :: "(string \<times> jval) list"

record CollapseThreshold =
  threshold_id :: string
  metric_name :: string
  critical_value :: real
  warning_value :: real
  current_value :: real
  is_triggered :: bool
  last_checked :: real

text \<open>\<open>CollapseThreshold.check\<close> returns the trigger flag and updates the threshold.\<close>

definition threshold_check :: "CollapseThreshold \<Rightarrow> real \<Rightarrow> real \<Rightarrow> bool \<times> CollapseThreshold" where
  "threshold_check t val now =
     (let t' = t\<lparr>current_value := val, last_checked := now,
                  is_triggered := (val \<ge> critical_value t)\<rparr>
      in (is_triggered t', t'))"

definition is_warning :: "CollapseThreshold \<Rightarrow> real \<Rightarrow> bool" where
  "is_warning t val = (val \<ge> warning_value t \<and> val < critical_value t)"

record ShieldMetrics =
  total_nodes :: nat
  protected_nodes :: nat
  exposed_nodes :: nat
  total_value_locked :: real
  hrl_score :: real
  collapse_thresholds_triggered :: "string list"
  last_assessment :: real

definition mk_threshold :: "string \<Rightarrow> string \<Rightarrow> real \<Rightarrow> real \<Rightarrow> real \<Rightarrow> CollapseThreshold" where
  "mk_threshold tid mname critical warning now =
     \<lparr>threshold_id = tid, metric_name = mname, critical_value = critical,
      warning_value = warning, current_value = 0, is_triggered = False, last_checked = now\<rparr>"

definition DEFAULT_THRESHOLDS :: "real \<Rightarrow> CollapseThreshold list" where
  "DEFAULT_THRESHOLDS now =
     [mk_threshold ''entropy_threshold'' ''system_entropy'' 0.5 0.3 now,
      mk_threshold ''violation_threshold'' ''identity_violations'' 5 2 now,
      mk_threshold ''latency_threshold'' ''execution_latency_ms'' 5000 2000 now,
      mk_threshold ''failure_threshold'' ''operation_failure_rate'' 0.1 0.05 now,
      mk_threshold ''liquidity_threshold'' ''liquidity_ratio'' 0.2 0.3 now]"

text \<open>The shield's state: the gate, the proof chain generator and the registries. The
  identity system, the BARK validator and the zero-entropy executor it also owns are
  not touched by the operations modelled here.\<close>

record SovereignShield =
  inevitability_gate :: InevitabilityGate
  proof_chain_generator :: ProofChainGenerator
  shield_status :: ShieldStatus
  nodes :: "(string \<times> WealthNode) list"
  capital_flows :: "(string \<times> CapitalFlowVector) list"
  collapse_thresholds :: "(string \<times> CollapseThreshold) list"
  metrics :: ShieldMetrics

definition SovereignShield_init :: "pylib \<Rightarrow> real \<Rightarrow> real \<Rightarrow> real \<Rightarrow> nat \<Rightarrow> SovereignShield" where
  "SovereignShield_init L now review_time canary_pct num_hosts =
     \<lparr>inevitability_gate = InevitabilityGate_init L now review_time canary_pct num_hosts,
      proof_chain_generator = \<lparr>chains = []\<rparr>,
      shield_status = ACTIVE,
      nodes = [],
      capital_flows = [],
      collapse_thresholds = map (\<lambda>t. (threshold_id t, t)) (DEFAULT_THRESHOLDS now),
      metrics = \<lparr>total_nodes = 0, protected_nodes = 0, exposed_nodes = 0,
                 total_value_locked = 0, hrl_score = 1, collapse_thresholds_triggered = [],
                 last_assessment = now\<rparr>\<rparr>"

definition update_metrics :: "SovereignShield \<Rightarrow> real \<Rightarrow> SovereignShield" where
  "update_metrics s now =
     (let ns = map snd (nodes s);
          total = length ns;
          prot = length (filter (\<lambda>n. wn_status n = PROTECTED) ns);
          expo = length (filter (\<lambda>n. wn_status n = EXPOSED) ns);
          tvl = sum_list (map balance ns);
          m = (metrics s)\<lparr>total_nodes := total, protected_nodes := prot,
                            exposed_nodes := expo, total_value_locked := tvl\<rparr>;
          m' = (if total > 0
                then m\<lparr>hrl_score := (real prot / real total) * min 1 (tvl / 1000000)\<rparr>
                else m)
      in s\<lparr>metrics := m'\<lparr>last_assessment := now\<rparr>\<rparr>)"

text \<open>
  \<open>register_node\<close>. The identity system computes the fingerprint and the DID of the
  trajectory from a random salt; its answer \<open>(bio_hash, did)\<close> is an argument. It
  raises ValueError on an empty trajectory, which is the argument \<open>None\<close>.
\<close>

definition register_node ::
  "SovereignShield \<Rightarrow> string \<Rightarrow> real \<Rightarrow> string \<Rightarrow> (string \<times> string) option \<Rightarrow> real \<Rightarrow>
   (string \<times> jval) list \<Rightarrow> (exn + WealthNode) \<times> SovereignShield" where
  "register_node s nid now operator_id identity initial_balance meta =
     (case identity of
        None \<Rightarrow> (Inl ValueError, s)
      | Some (bh, did) \<Rightarrow>
         (let node = \<lparr>node_id = nid, wn_operator_id = operator_id, wn_did = did,
                       wn_bio_hash = bh, wn_status = PROTECTED, balance = initial_balance,
                       frozen_balance = 0, wn_created_at = now, last_verified = now,
                       wn_metadata = meta\<rparr>
          in (Inr node, update_metrics (s\<lparr>nodes := dict_set (nodes s) nid node\<rparr>) now)))"

text \<open>\<open>_generate_flow_receipt\<close>: the proof chain of the executed flow and its
  receipt.\<close>

definition generate_flow_receipt ::
  "pylib \<Rightarrow> SovereignShield \<Rightarrow> string \<Rightarrow> string \<Rightarrow> real \<Rightarrow> CapitalFlowVector \<Rightarrow>
   (exn + DeterministicReceipt) \<times> SovereignShield" where
  "generate_flow_receipt L s chain_id rid now flow =
     (case map_of (nodes s) (source_node_id flow) of
        None \<Rightarrow> (Inl KeyError, s)
      | Some src \<Rightarrow>
         (case create_proof_chain L (proof_chain_generator s) chain_id now ''CAPITAL_TRANSFER''
                 [(''source'', JStr (source_node_id flow)),
                  (''target'', JStr (target_node_id flow)),
                  (''amount'', JFloat (cf_amount flow))]
                 [(''executed'', JBool True),
                  (''timestamp'', (case executed_at flow of None \<Rightarrow> JNone | Some t \<Rightarrow> JFloat t))]
                 (wn_operator_id src) None of
            Inl e \<Rightarrow> (Inl e, s)
          | Inr (chain, gen') \<Rightarrow>
              (generate_receipt L rid now chain [(''amount'', JFloat (cf_amount flow))]
                 [(''status'', JStr ''executed'')] 1,
               s\<lparr>proof_chain_generator := gen'\<rparr>)))"

definition update_node :: "(string \<times> WealthNode) list \<Rightarrow> string \<Rightarrow> (WealthNode \<Rightarrow> WealthNode) \<Rightarrow>
    (string \<times> WealthNode) list" where
  "update_node ns nid f = map (\<lambda>(k, n). if k = nid then (k, f n) else (k, n)) ns"

text \<open>
  \<open>initiate_capital_flow\<close>. The flow record is stored before the gate runs, so it
  stays in the registry (pending) when the gate raises. Source and target are objects
  of the node registry: when both ids name one node, the debit and the credit hit the
  same object.
\<close>

definition initiate_capital_flow ::
  "pylib \<Rightarrow> SovereignShield \<Rightarrow> string \<Rightarrow> string \<Rightarrow> string \<Rightarrow> string \<Rightarrow> real \<Rightarrow>
   string \<Rightarrow> string \<Rightarrow> real \<Rightarrow> pyval \<Rightarrow> (string \<times> jval) list \<Rightarrow>
   (exn + (bool \<times> string option)) \<times> SovereignShield" where
  "initiate_capital_flow L s vid eid chain_id rid now src_id tgt_id amount execution_logic meta =
     (case (map_of (nodes s) src_id, map_of (nodes s) tgt_id) of
        (Some source, Some target) \<Rightarrow>
          if \<not> can_transact source amount then (Inr (False, None), s)
          else
           (let flow = \<lparr>vector_id = vid, source_node_id = src_id, target_node_id = tgt_id,
                         cf_amount = amount, cf_status = ''pending'', gate_execution_id = None,
                         cf_receipt = None, cf_created_at = now, executed_at = None,
                         cf_metadata = meta\<rparr>;
                s1 = s\<lparr>capital_flows := dict_set (capital_flows s) vid flow\<rparr>
            in case execute_full_gate L (inevitability_gate s1) eid now (wn_operator_id source)
                      (replicate 512 1)
                      [(''source'', JStr src_id), (''target'', JStr tgt_id),
                       (''amount'', JFloat amount)]
                      execution_logic ''CAPITAL_TRANSFER'' (JFloat amount)
                      (wn_did source) (wn_bio_hash source) of
                 (Inl e, g') \<Rightarrow> (Inl e, s1\<lparr>inevitability_gate := g'\<rparr>)
               | (Inr (approved, execution), g') \<Rightarrow>
                  (let s2 = s1\<lparr>inevitability_gate := g'\<rparr>;
                       flow1 = flow\<lparr>gate_execution_id := Some (execution_id execution),
                                     cf_status := (if approved then ''approved'' else ''rejected'')\<rparr>
                   in if approved then
                        (let ns1 = update_node (nodes s2) src_id (\<lambda>n. n\<lparr>balance := balance n - amount\<rparr>);
                             ns2 = update_node ns1 tgt_id (\<lambda>n. n\<lparr>balance := balance n + amount\<rparr>);
                             flow2 = flow1\<lparr>executed_at := Some now, cf_status := ''executed''\<rparr>;
                             s3 = s2\<lparr>nodes := ns2,
                                     capital_flows := dict_set (capital_flows s2) vid flow2\<rparr>
                         in case generate_flow_receipt L s3 chain_id rid now flow2 of
                              (Inl e, s4) \<Rightarrow> (Inl e, s4)
                            | (Inr receipt, s4) \<Rightarrow>
                               (Inr (True, Some (execution_id execution)),
                                update_metrics
                                  (s4\<lparr>capital_flows := dict_set (capital_flows s4) vid
                                         (flow2\<lparr>cf_receipt := Some receipt\<rparr>)\<rparr>) now))
                      else
                        (Inr (False, None),
                         update_metrics
                           (s2\<lparr>capital_flows := dict_set (capital_flows s2) vid flow1\<rparr>) now)))
      | _ \<Rightarrow> (Inr (False, None), s))"

text \<open>
  \<open>check_collapse_thresholds\<close>: the loop over the threshold registry looks each
  threshold's id up in the \<open>metrics\<close> argument.
\<close>

fun check_all ::
  "(string \<rightharpoonup> real) \<Rightarrow> real \<Rightarrow> (string \<times> CollapseThreshold) list \<Rightarrow>
   string list \<times> (string \<times> CollapseThreshold) list" where
  "check_all ms now [] = ([], [])"
| "check_all ms now ((tid, t) # rest) =
     (let (triggered, rest') = check_all ms now rest
      in case ms tid of
           None \<Rightarrow> (triggered, (tid, t) # rest')
         | Some v \<Rightarrow>
            (let (trig, t') = threshold_check t v now
             in (if trig then tid # triggered else triggered, (tid, t') # rest')))"

definition check_collapse_thresholds ::
  "SovereignShield \<Rightarrow> (string \<times> real) list \<Rightarrow> real \<Rightarrow> string list \<times> SovereignShield" where
  "check_collapse_thresholds s ms now =
     (let (triggered, ths) = check_all (map_of ms) now (collapse_thresholds s);
          s1 = s\<lparr>collapse_thresholds := ths\<rparr>
      in if triggered \<noteq> []
         then (triggered,
               s1\<lparr>metrics := (metrics s1)\<lparr>collapse_thresholds_triggered := triggered\<rparr>,
                   shield_status := COMPROMISED\<rparr>)
         else (triggered, s1\<lparr>shield_status := ACTIVE\<rparr>))"

section \<open>BARK validator (bark.py)\<close>

























subsection \<open>Fixed-point iteration\<close>






text \<open>
  The iteration of the specification: \<open>z\<^sub>0\<close> is the start vector,
  \<open>z\<^sub>n\<^sub>+\<^sub>1 = f(z\<^sub>n, x)\<close>, and \<open>delta\<^sub>n\<close> is the norm of \<open>z\<^sub>n\<^sub>+\<^sub>1 - z\<^sub>n\<close>, the difference
  and the norm being the ones the library computes. \<open>x\<close> is the input vector, the
  zero vector of the start vector's length when none is given.
\<close>

definition z_seq :: "(real list \<Rightarrow> real list \<Rightarrow> real list) \<Rightarrow> real list \<Rightarrow> real list \<Rightarrow> nat \<Rightarrow> real list" where
  "z_seq f x z0 n = ((\<lambda>z. f z x) ^^ n) z0"






subsection \<open>The gate-level contract\<close>

text \<open>
  What attempting one stage on a context amounts to, in terms of the stage's executor:
  \<open>validate\<close> is called first; it may raise, or reject with a reason; when it accepts,
  \<open>execute\<close> is called, which may raise, report no success, or pass with a result. A
  stage without an executor is rejected.
\<close>

datatype attempt = Passed jval | Unsuccessful jval | Rejected "string option" | Raised exn

definition attempt_stage ::
  "(GateStage \<rightharpoonup> StageExecutor) \<Rightarrow> GateStage \<Rightarrow> stage_context \<Rightarrow> attempt" where
  "attempt_stage ex s ctx =
     (case ex s of
        None \<Rightarrow> Rejected (Some (''No executor for stage: '' @ stage_str s))
      | Some executor \<Rightarrow>
          (case validate executor ctx of
             Inl e \<Rightarrow> Raised e
           | Inr (is_valid, reason) \<Rightarrow>
               if is_valid then
                 (case execute executor ctx of
                    Inl e \<Rightarrow> Raised e
                  | Inr (success, result) \<Rightarrow>
                      if success then Passed result else Unsuccessful result)
               else Rejected reason))"

fun is_passed :: "attempt \<Rightarrow> bool" where
  "is_passed (Passed r) = True"
| "is_passed a = False"

fun is_dict :: "jval \<Rightarrow> bool" where
  "is_dict (JDict d) = True"
| "is_dict v = False"

text \<open>A stage that passed hands its result to the stages after it, under the key
  \<open><stage>_result\<close> of the context.\<close>

fun context_after :: "GateStage \<Rightarrow> attempt \<Rightarrow> stage_context \<Rightarrow> stage_context" where
  "context_after s (Passed r) ctx = ctx(stage_value s @ ''_result'' \<mapsto> Data r)"
| "context_after s a ctx = ctx"

text \<open>The run goes on to the next stage after a stage that passed; the registration
  stage must also have returned a dict, from which the gate reads the intent hash.\<close>

fun goes_on :: "GateStage \<Rightarrow> attempt \<Rightarrow> bool" where
  "goes_on s (Passed r) = (if s = REGISTRATION then is_dict r else True)"
| "goes_on s a = False"

text \<open>The fixed order of the five stages.\<close>

definition stage_order :: "GateStage list" where
  "stage_order = [REGISTRATION, SHADOWING, CHALLENGE_WINDOW, CANARY_ROLLOUT, FINAL_PERMIT]"

text \<open>The stages attempted in a run over the stages \<open>todo\<close> from a context, in the
  order of the attempts, each with what its executor answered.\<close>

fun attempts ::
  "(GateStage \<rightharpoonup> StageExecutor) \<Rightarrow> GateStage list \<Rightarrow> stage_context \<Rightarrow> (GateStage \<times> attempt) list" where
  "attempts ex [] ctx = []"
| "attempts ex (s # rest) ctx =
     (let a = attempt_stage ex s ctx
      in (s, a) # (if goes_on s a then attempts ex rest (context_after s a ctx) else []))"

text \<open>What the execution record keeps of an attempt: status, result and error. An
  attempt that raised leaves no record.\<close>

fun stage_record :: "attempt \<Rightarrow> (StageStatus \<times> jval option \<times> string option) option" where
  "stage_record (Passed r) = Some (COMPLETED, Some r, None)"
| "stage_record (Unsuccessful r) = Some (FAILED, Some r, None)"
| "stage_record (Rejected reason) = Some (FAILED, None, reason)"
| "stage_record (Raised e) = None"

definition recorded ::
  "GateExecution \<Rightarrow> GateStage \<Rightarrow> (StageStatus \<times> jval option \<times> string option) option" where
  "recorded e s = map_option (\<lambda>se. (se_status se, se_result se, se_error se)) (stages e s)"

text \<open>The records, the context and the verdict of the stage loop after a list of
  attempts.\<close>

fun records_after ::
  "(GateStage \<times> attempt) list \<Rightarrow> (GateStage \<rightharpoonup> StageStatus \<times> jval option \<times> string option) \<Rightarrow>
   (GateStage \<rightharpoonup> StageStatus \<times> jval option \<times> string option)" where
  "records_after [] rec = rec"
| "records_after ((s, a) # tr) rec =
     records_after tr (case stage_record a of None \<Rightarrow> rec | Some x \<Rightarrow> rec(s \<mapsto> x))"

fun contexts_after :: "(GateStage \<times> attempt) list \<Rightarrow> stage_context \<Rightarrow> stage_context" where
  "contexts_after [] ctx = ctx"
| "contexts_after ((s, a) # tr) ctx = contexts_after tr (context_after s a ctx)"

fun verdict :: "(GateStage \<times> attempt) list \<Rightarrow> exn + bool" where
  "verdict [] = Inr True"
| "verdict ((s, a) # tr) =
     (case a of
        Raised e \<Rightarrow> Inl e
      | Rejected reason \<Rightarrow> Inr False
      | Unsuccessful r \<Rightarrow> Inr False
      | Passed r \<Rightarrow> if goes_on s a then verdict tr else Inl AttributeError)"

text \<open>The context of the first stage of a full gate run.\<close>

definition full_gate_context ::
  "InevitabilityGate \<Rightarrow> string \<Rightarrow> real list \<Rightarrow> (string \<times> jval) list \<Rightarrow> pyval \<Rightarrow> string \<Rightarrow> jval \<Rightarrow>
   string \<Rightarrow> string \<Rightarrow> stage_context" where
  "full_gate_context g operator_id tfp parameters execution_logic transaction_type amount did
     bio_hash =
     [''operator_id'' \<mapsto> Data (JStr operator_id),
      ''target_fixed_point'' \<mapsto> Data (JList (map JFloat tfp)),
      ''parameters'' \<mapsto> Data (JDict parameters),
      ''transaction_type'' \<mapsto> Data (JStr transaction_type),
      ''amount'' \<mapsto> Data amount,
      ''canary_percentage'' \<mapsto> Data (JFloat (canary_percentage g)),
      ''did'' \<mapsto> Data (JStr did),
      ''bio_hash'' \<mapsto> Data (JStr bio_hash),
      ''execution_logic'' \<mapsto> execution_logic]"

section \<open>Instances for running the model\<close>

text \<open>
  A library instance for running the model on concrete inputs: constant digests, a
  constant float text, products and differences without rounding, and a constant norm.
  The theorems below hold for every library; this instance only shows that their
  hypotheses can be met.
\<close>

definition stub_lib :: pylib where
  "stub_lib = \<lparr>sha3_256 = (\<lambda>s. 0), sha3_512 = (\<lambda>s. 0), float_str = (\<lambda>r. ''0.0''),
     float_mul = (\<lambda>a b. a * b), float_sub = (\<lambda>a b. a - b), np_norm = (\<lambda>v. 0)\<rparr>"





text \<open>An executor that accepts every context and returns a fixed answer.\<close>

definition stub_executor :: "bool \<Rightarrow> jval \<Rightarrow> StageExecutor" where
  "stub_executor ok result =
     \<lparr>validate = (\<lambda>ctx. Inr (True, None)), execute = (\<lambda>ctx. Inr (ok, result))\<rparr>"

text \<open>The source's gate with some of its executors replaced.\<close>

definition gate_with :: "(GateStage \<times> StageExecutor) list \<Rightarrow> InevitabilityGate" where
  "gate_with repl =
     (let g = InevitabilityGate_init stub_lib 0 300 0.01 3
      in g\<lparr>executors := executors g ++ map_of repl\<rparr>)"

definition const_logic :: pyval where
  "const_logic = Callable (\<lambda>params host. Inr (JDict [(''ok'', JBool True)]))"

text \<open>A full gate run with the source's executors, except that registration returns an
  intent record instead of raising: the challenge stage then rejects, because it looks
  for the key \<open>shadow_result\<close> while the shadowing stage's result is stored under
  \<open>shadowing_result\<close>.\<close>

definition run_challenge_rejected :: "(exn + (bool \<times> GateExecution)) \<times> InevitabilityGate" where
  "run_challenge_rejected = execute_full_gate stub_lib
     (gate_with [(REGISTRATION, stub_executor True (JDict [(''intent_hash'', JStr ''ab'')]))])
     ''e1'' 0 ''alice'' [] [] const_logic ''CAPITAL_TRANSFER'' (JInt 100) ''did:axiom:1'' ''bh''"

text \<open>The same run with the challenge stage replaced as well: all five stages pass.\<close>

definition run_all_passed :: "(exn + (bool \<times> GateExecution)) \<times> InevitabilityGate" where
  "run_all_passed = execute_full_gate stub_lib
     (gate_with [(REGISTRATION, stub_executor True (JDict [(''intent_hash'', JStr ''ab'')])),
                 (CHALLENGE_WINDOW, stub_executor True (JDict [(''challenge'', JBool True)]))])
     ''e1'' 0 ''alice'' [] [] const_logic ''CAPITAL_TRANSFER'' (JInt 100) ''did:axiom:1'' ''bh''"

text \<open>The attempts of the two runs, as the contract gives them.\<close>

definition attempts_challenge_rejected :: "(GateStage \<times> attempt) list" where
  "attempts_challenge_rejected =
     attempts
       (executors (gate_with
          [(REGISTRATION, stub_executor True (JDict [(''intent_hash'', JStr ''ab'')]))]))
       stage_order
       (full_gate_context
          (gate_with [(REGISTRATION, stub_executor True (JDict [(''intent_hash'', JStr ''ab'')]))])
          ''alice'' [] [] const_logic ''CAPITAL_TRANSFER'' (JInt 100) ''did:axiom:1'' ''bh'')"

definition attempts_all_passed :: "(GateStage \<times> attempt) list" where
  "attempts_all_passed =
     attempts
       (executors (gate_with
          [(REGISTRATION, stub_executor True (JDict [(''intent_hash'', JStr ''ab'')])),
           (CHALLENGE_WINDOW, stub_executor True (JDict [(''challenge'', JBool True)]))]))
       stage_order
       (full_gate_context
          (gate_with
             [(REGISTRATION, stub_executor True (JDict [(''intent_hash'', JStr ''ab'')])),
              (CHALLENGE_WINDOW, stub_executor True (JDict [(''challenge'', JBool True)]))])
          ''alice'' [] [] const_logic ''CAPITAL_TRANSFER'' (JInt 100) ''did:axiom:1'' ''bh'')"


section \<open>Properties of the proof chain\<close>

lemma length_hex_digits: "length (hex_digits k n) = k"
  by (induction k arbitrary: n) auto

lemma length_sha3_256_hex: "length (sha3_256_hex L s) = 64"
  by (simp add: sha3_256_hex_def hexdigest_def length_hex_digits)

lemma length_sha3_512_hex: "length (sha3_512_hex L s) = 128"
  by (simp add: sha3_512_hex_def hexdigest_def length_hex_digits)

lemma sha3_256_hex_neq_take32: "sha3_256_hex L x \<noteq> take 32 y"
proof
  assume "sha3_256_hex L x = take 32 y"
  then have "length (sha3_256_hex L x) = length (take 32 y)" by simp
  then show False by (simp add: length_sha3_256_hex)
qed

lemma integrity_view:
  "steps_view c1 = steps_view c2 \<Longrightarrow> verify_chain_integrity c1 = verify_chain_integrity c2"
proof (induction c1 arbitrary: c2 rule: verify_chain_integrity.induct)
  case 1
  then show ?case by (simp add: steps_view_def)
next
  case (2 s)
  then show ?case by (cases c2) (auto simp: steps_view_def)
next
  case (3 s t rest)
  then obtain s' t' rest' where c2: "c2 = s' # t' # rest'"
    by (cases c2; cases "tl c2") (auto simp: steps_view_def)
  with 3 show ?case by (auto simp: steps_view_def)
qed

lemma find_view:
  "steps_view c1 = steps_view c2 \<Longrightarrow>
   map_option hash_value (find (\<lambda>s. proof_type s = ty) c1) =
   map_option hash_value (find (\<lambda>s. proof_type s = ty) c2)"
proof (induction c1 arbitrary: c2)
  case Nil
  then show ?case by (simp add: steps_view_def)
next
  case (Cons a c1)
  then obtain b c2' where "c2 = b # c2'" by (cases c2) (auto simp: steps_view_def)
  with Cons show ?case by (auto simp: steps_view_def)
qed

lemma hashes_view: "steps_view c1 = steps_view c2 \<Longrightarrow> map hash_value c1 = map hash_value c2"
proof -
  assume "steps_view c1 = steps_view c2"
  then have "map (fst \<circ> snd) (steps_view c1) = map (fst \<circ> snd) (steps_view c2)" by simp
  then show ?thesis by (simp add: steps_view_def comp_def)
qed

lemma receipt_view:
  assumes "steps_view c1 = steps_view c2"
  shows "verify_receipt c1 r = verify_receipt c2 r"
proof -
  from find_view [OF assms, of OPERATION] hashes_view [OF assms] show ?thesis
    unfolding verify_receipt_def
    by (cases "find (\<lambda>s. proof_type s = OPERATION) c1";
        cases "find (\<lambda>s. proof_type s = OPERATION) c2") auto
qed

lemma verify_proof_chain_view:
  "steps_view c1 = steps_view c2 \<Longrightarrow> verify_proof_chain v now c1 r = verify_proof_chain v now c2 r"
  by (simp add: verify_proof_chain_def integrity_view [of c1 c2] receipt_view [of c1 c2])

lemma steps_view_payload:
  "steps_view (chain[i := (chain ! i)\<lparr>data := d\<rparr>]) = steps_view chain"
proof (cases "i < length chain")
  case True
  then show ?thesis
    by (simp add: steps_view_def map_update list_update_same_conv)
next
  case False
  then show ?thesis by (simp add: list_update_beyond)
qed

text \<open>
  The verifier does not read a step's payload: replacing the payload of any step of any
  chain leaves the verdict as it was. A chain that verifies still verifies after its
  payload is changed.
\<close>

lemma verify_proof_chain_ignores_payload:
  "verify_proof_chain v now (chain[i := (chain ! i)\<lparr>data := d\<rparr>]) r =
   verify_proof_chain v now chain r"
  by (rule verify_proof_chain_view) (rule steps_view_payload)

text \<open>
  Claim C5. Every chain that \<open>create_proof_chain\<close> returns has exactly the five steps
  input, operation, verification, output, signature in this order; the first step's
  previous hash is the genesis value of 64 zero characters and every later step's
  previous hash is the hash of the step before it, so the chain passes the verifier's
  linkage check. The function returns whenever no execution record is passed; with an
  execution record it raises AttributeError and returns no chain.
\<close>

theorem C5_chain_linkage:
  "(case create_proof_chain L g cid now ot ins outs opid er of
      Inl e \<Rightarrow> e = AttributeError \<and> er \<noteq> None
    | Inr (chain, g') \<Rightarrow>
        er = None \<and>
        map proof_type chain = [INPUT, OPERATION, VERIFICATION, OUTPUT, SIGNATURE] \<and>
        map previous_hash chain = replicate 64 (CHR ''0'') # butlast (map hash_value chain) \<and>
        verify_chain_integrity chain)"
  by (cases er) (simp_all add: create_proof_chain_def Let_def genesis_hash_def)

text \<open>
  Claim C10. For every receipt that \<open>generate_receipt\<close> produces from a chain built by
  \<open>create_proof_chain\<close>, \<open>DeterministicReceipt.verify\<close> returns false: the stored
  operation hash is the hash of the chain's next-to-last step, a digest of 64
  characters, and it is compared with the first 32 characters of another digest.
\<close>

theorem C10_receipt_verify_false:
  "(case create_proof_chain L g cid now ot ins outs opid None of
      Inl e \<Rightarrow> False
    | Inr (chain, g') \<Rightarrow>
       (case generate_receipt L rid now' chain ins' outs' t of
          Inl e \<Rightarrow> False
        | Inr r \<Rightarrow>
            operation_hash r = hash_value (chain ! (length chain - 2)) \<and>
            length (operation_hash r) = 64 \<and>
            length (take 32 (sha3_256_hex L (concat (proof_chain r)))) = 32 \<and>
            receipt_verify L r = False))"
  by (simp add: create_proof_chain_def Let_def generate_receipt_def receipt_verify_def
      length_sha3_256_hex sha3_256_hex_neq_take32 del: json_dumps.simps)

text \<open>
  Claim C2. The claim says that a generated chain and the receipt generated from it
  verify as VALID. In the code \<open>generate_receipt\<close> stores the hash of \<open>chain[-2]\<close>, the
  output step, as the receipt's operation hash, and the verifier compares it with the
  hash of the operation step. The verdict is therefore VALID exactly when the digest
  of the serialised outputs equals the digest of the serialised operation record, and
  INVALID otherwise.
\<close>

theorem C2_verify_generated_chain:
  "(case create_proof_chain L g cid now ot ins outs opid None of
      Inl e \<Rightarrow> False
    | Inr (chain, g') \<Rightarrow>
       (case generate_receipt L rid now' chain ins' outs' t of
          Inl e \<Rightarrow> False
        | Inr r \<Rightarrow>
           (let same = (sha3_256_hex L (json_dumps L (JDict outs)) =
                        sha3_256_hex L (json_dumps L (JDict
                           [(''operation_type'', JStr ot),
                            (''input_hash'', JStr (sha3_256_hex L (json_dumps L (JDict ins))))])))
            in fst (verify_proof_chain v now'' chain r) = (same, if same then VALID else INVALID))))"
  by (simp add: create_proof_chain_def Let_def generate_receipt_def verify_proof_chain_def
      verify_receipt_def dict_get_def del: json_dumps.simps)

section \<open>Properties of the gate\<close>

lemma stage_key_neq:
  "st \<noteq> CANARY_ROLLOUT \<Longrightarrow> stage_value st @ ''_result'' \<noteq> ''canary_rollout_result''"
  by (cases st) simp_all

lemma run_stages_Cons:
  "run_stages L now eid (st # rest) g =
     (case fst (execute_stage L g eid st Map.empty now) of
        Inl e \<Rightarrow> (Inl e, snd (execute_stage L g eid st Map.empty now))
      | Inr (ok, se) \<Rightarrow>
          if \<not> ok then (Inr False, snd (execute_stage L g eid st Map.empty now))
          else run_stages L now eid rest (snd (execute_stage L g eid st Map.empty now)))"
  by (cases "execute_stage L g eid st Map.empty now") (auto split: sum.splits)

lemma execute_stage_attempt:
  assumes e: "executions g eid = Some e"
  shows "\<exists>e'. executions (snd (execute_stage L g eid s Map.empty now)) eid = Some e' \<and>
     executors (snd (execute_stage L g eid s Map.empty now)) = executors g \<and>
     is_approved e' = is_approved e \<and> liquidity_released e' = liquidity_released e \<and>
     ge_context e' = context_after s (attempt_stage (executors g) s (ge_context e)) (ge_context e) \<and>
     recorded e' = (case stage_record (attempt_stage (executors g) s (ge_context e)) of
                      None \<Rightarrow> recorded e | Some x \<Rightarrow> (recorded e)(s \<mapsto> x)) \<and>
     (case attempt_stage (executors g) s (ge_context e) of
        Raised x \<Rightarrow> fst (execute_stage L g eid s Map.empty now) = Inl x
      | Rejected reason \<Rightarrow> (\<exists>se. fst (execute_stage L g eid s Map.empty now) = Inr (False, se))
      | Unsuccessful r \<Rightarrow> (\<exists>se. fst (execute_stage L g eid s Map.empty now) = Inr (False, se))
      | Passed r \<Rightarrow>
          if goes_on s (Passed r)
          then (\<exists>se. fst (execute_stage L g eid s Map.empty now) = Inr (True, se))
          else fst (execute_stage L g eid s Map.empty now) = Inl AttributeError)"
  using e
  by (auto simp: execute_stage_def attempt_stage_def Let_def put_execution_def recorded_def
                 fun_eq_iff
           split: option.splits sum.splits prod.splits jval.splits if_splits)

lemma run_stages_attempts:
  assumes "executions g eid = Some e"
  shows "\<exists>e'. executions (snd (run_stages L now eid todo g)) eid = Some e' \<and>
     executors (snd (run_stages L now eid todo g)) = executors g \<and>
     is_approved e' = is_approved e \<and> liquidity_released e' = liquidity_released e \<and>
     ge_context e' = contexts_after (attempts (executors g) todo (ge_context e)) (ge_context e) \<and>
     recorded e' = records_after (attempts (executors g) todo (ge_context e)) (recorded e) \<and>
     fst (run_stages L now eid todo g) = verdict (attempts (executors g) todo (ge_context e))"
  using assms
proof (induction todo arbitrary: g e)
  case Nil
  then show ?case by simp
next
  case (Cons s rest)
  let ?r = "execute_stage L g eid s Map.empty now"
  let ?a = "attempt_stage (executors g) s (ge_context e)"
  from execute_stage_attempt [OF Cons.prems, of L s now]
  obtain e1 where e1: "executions (snd ?r) eid = Some e1"
    and ex1: "executors (snd ?r) = executors g"
    and ap1: "is_approved e1 = is_approved e"
    and lq1: "liquidity_released e1 = liquidity_released e"
    and cx1: "ge_context e1 = context_after s ?a (ge_context e)"
    and rc1: "recorded e1 = (case stage_record ?a of None \<Rightarrow> recorded e
                             | Some x \<Rightarrow> (recorded e)(s \<mapsto> x))"
    and res: "(case ?a of
        Raised x \<Rightarrow> fst ?r = Inl x
      | Rejected reason \<Rightarrow> (\<exists>se. fst ?r = Inr (False, se))
      | Unsuccessful r \<Rightarrow> (\<exists>se. fst ?r = Inr (False, se))
      | Passed r \<Rightarrow>
          if goes_on s (Passed r) then (\<exists>se. fst ?r = Inr (True, se))
          else fst ?r = Inl AttributeError)"
    by blast
  show ?case
  proof (cases "goes_on s ?a")
    case True
    then obtain r where a: "?a = Passed r" by (cases ?a) simp_all
    from True a have go: "goes_on s (Passed r)" by simp
    from res a go obtain se where f: "fst ?r = Inr (True, se)"
      by (auto simp del: goes_on.simps)
    have run: "run_stages L now eid (s # rest) g = run_stages L now eid rest (snd ?r)"
      using f by (simp add: run_stages_Cons del: run_stages.simps)
    from Cons.IH [OF e1]
    obtain e' where "executions (snd (run_stages L now eid rest (snd ?r))) eid = Some e'"
      and "executors (snd (run_stages L now eid rest (snd ?r))) = executors (snd ?r)"
      and "is_approved e' = is_approved e1" and "liquidity_released e' = liquidity_released e1"
      and "ge_context e' = contexts_after (attempts (executors (snd ?r)) rest (ge_context e1))
             (ge_context e1)"
      and "recorded e' = records_after (attempts (executors (snd ?r)) rest (ge_context e1))
             (recorded e1)"
      and "fst (run_stages L now eid rest (snd ?r)) =
             verdict (attempts (executors (snd ?r)) rest (ge_context e1))"
      by blast
    then show ?thesis
      using go a ex1 ap1 lq1 cx1 rc1 unfolding run
      by (simp add: Let_def del: run_stages.simps goes_on.simps)
  next
    case False
    have run: "run_stages L now eid (s # rest) g =
        (case fst ?r of Inl x \<Rightarrow> Inl x | Inr p \<Rightarrow> Inr False, snd ?r)"
      using res False
      by (cases ?a)
         (auto simp: run_stages_Cons simp del: run_stages.simps goes_on.simps)
    show ?thesis
      using False res e1 ex1 ap1 lq1 cx1 rc1 unfolding run
      by (cases ?a) (auto simp: Let_def simp del: goes_on.simps)
  qed
qed

lemma attempts_prefix:
  "map fst (attempts ex todo ctx) = take (length (attempts ex todo ctx)) todo"
  by (induction todo arbitrary: ctx) (simp_all add: Let_def)

lemma attempts_nonempty: "todo \<noteq> [] \<Longrightarrow> attempts ex todo ctx \<noteq> []"
  by (cases todo) (simp_all add: Let_def)

lemma attempts_length: "length (attempts ex todo ctx) \<le> length todo"
  by (induction todo arbitrary: ctx) (simp_all add: Let_def)

lemma attempts_stop:
  "(s, a) \<in> set (attempts ex todo ctx) \<Longrightarrow> \<not> goes_on s a \<Longrightarrow>
   last (attempts ex todo ctx) = (s, a) \<and>
   verdict (attempts ex todo ctx) =
     (case a of Raised x \<Rightarrow> Inl x | Passed r \<Rightarrow> Inl AttributeError | _ \<Rightarrow> Inr False)"
proof (induction todo arbitrary: ctx)
  case Nil
  then show ?case by simp
next
  case (Cons t rest)
  let ?b = "attempt_stage ex t ctx"
  show ?case
  proof (cases "goes_on t ?b")
    case True
    then obtain r where b: "?b = Passed r" by (cases ?b) simp_all
    from Cons.prems True have m: "(s, a) \<in> set (attempts ex rest (context_after t ?b ctx))"
      by (auto simp: Let_def simp del: goes_on.simps)
    from Cons.IH [OF m Cons.prems(2)] m True b show ?thesis
      by (auto simp: Let_def simp del: goes_on.simps context_after.simps)
  next
    case False
    with Cons.prems have "(s, a) = (t, ?b)" by (simp add: Let_def del: goes_on.simps)
    with False show ?thesis
      by (cases ?b) (auto simp: Let_def simp del: goes_on.simps)
  qed
qed

lemma attempts_butlast:
  "(s, a) \<in> set (butlast (attempts ex todo ctx)) \<Longrightarrow> goes_on s a"
proof (induction todo arbitrary: ctx)
  case Nil
  then show ?case by simp
next
  case (Cons t rest)
  let ?b = "attempt_stage ex t ctx"
  show ?case
  proof (cases "goes_on t ?b")
    case True
    from Cons.prems True
    have "(s, a) = (t, ?b) \<or> (s, a) \<in> set (butlast (attempts ex rest (context_after t ?b ctx)))"
      by (auto simp: Let_def simp del: goes_on.simps split: if_splits)
    then show ?thesis using True Cons.IH by blast
  next
    case False
    with Cons.prems show ?thesis by (simp add: Let_def del: goes_on.simps)
  qed
qed

lemma verdict_true:
  "(verdict (attempts ex todo ctx) = Inr True) =
   (length (attempts ex todo ctx) = length todo \<and>
    list_all (\<lambda>(s, a). goes_on s a) (attempts ex todo ctx))"
proof (induction todo arbitrary: ctx)
  case Nil
  then show ?case by simp
next
  case (Cons t rest)
  let ?b = "attempt_stage ex t ctx"
  show ?case
  proof (cases "goes_on t ?b")
    case True
    then obtain r where b: "?b = Passed r" by (cases ?b) simp_all
    from True b Cons.IH [of "context_after t ?b ctx"] show ?thesis
      by (simp add: Let_def del: goes_on.simps context_after.simps)
  next
    case False
    then show ?thesis
      by (cases ?b) (simp_all add: Let_def del: goes_on.simps)
  qed
qed

lemma goes_on_passed: "goes_on s a \<Longrightarrow> is_passed a"
  by (cases a) simp_all

lemma records_after_map_of:
  "distinct (map fst tr) \<Longrightarrow>
   records_after tr rec s =
     (case map_of tr s of None \<Rightarrow> rec s
      | Some a \<Rightarrow> (case stage_record a of None \<Rightarrow> rec s | Some x \<Rightarrow> Some x))"
proof (induction tr arbitrary: rec)
  case Nil
  then show ?case by simp
next
  case (Cons p tr)
  obtain t b where p: "p = (t, b)" by (cases p)
  from Cons.prems p have d: "distinct (map fst tr)" and n: "t \<notin> fst ` set tr" by simp_all
  from n have m: "map_of tr t = None" by (simp add: map_of_eq_None_iff)
  show ?case
    using Cons.IH [OF d] m
    by (cases "stage_record b") (auto simp: p split: option.splits)
qed

lemma contexts_after_other:
  "CANARY_ROLLOUT \<notin> fst ` set tr \<Longrightarrow>
   contexts_after tr ctx ''canary_rollout_result'' = ctx ''canary_rollout_result''"
proof (induction tr arbitrary: ctx)
  case Nil
  then show ?case by simp
next
  case (Cons p tr)
  obtain t b where p: "p = (t, b)" by (cases p)
  from Cons.prems p have t: "t \<noteq> CANARY_ROLLOUT" and r: "CANARY_ROLLOUT \<notin> fst ` set tr"
    by auto
  have "context_after t b ctx ''canary_rollout_result'' = ctx ''canary_rollout_result''"
    using stage_key_neq [OF t] by (cases b) simp_all
  with Cons.IH [OF r] show ?case by (simp add: p)
qed

lemma contexts_after_canary:
  "distinct (map fst tr) \<Longrightarrow> (CANARY_ROLLOUT, Passed r) \<in> set tr \<Longrightarrow>
   contexts_after tr ctx ''canary_rollout_result'' = Some (Data r)"
proof (induction tr arbitrary: ctx)
  case Nil
  then show ?case by simp
next
  case (Cons p tr)
  obtain t b where p: "p = (t, b)" by (cases p)
  from Cons.prems p have d: "distinct (map fst tr)" and n: "t \<notin> fst ` set tr" by simp_all
  show ?case
  proof (cases "p = (CANARY_ROLLOUT, Passed r)")
    case True
    with p n have "CANARY_ROLLOUT \<notin> fst ` set tr" by simp
    from contexts_after_other [OF this] True show ?thesis by simp
  next
    case False
    with Cons.prems have "(CANARY_ROLLOUT, Passed r) \<in> set tr" by simp
    from Cons.IH [OF d this] show ?thesis by (simp add: p)
  qed
qed

lemma contexts_after_no_canary:
  "CANARY_ROLLOUT \<notin> fst ` set tr \<Longrightarrow>
   contexts_after tr
     (full_gate_context g operator_id tfp parameters execution_logic transaction_type amount did
        bio_hash) ''canary_rollout_result'' = None"
  by (simp add: contexts_after_other full_gate_context_def)

lemma recorded_update:
  "recorded (e\<lparr>ge_completed_at := a\<rparr>) = recorded e"
  "recorded (e\<lparr>is_approved := b\<rparr>) = recorded e"
  "recorded (e\<lparr>liquidity_released := c\<rparr>) = recorded e"
  by (simp_all add: recorded_def fun_eq_iff)

lemma full_gate_verdict:
  fixes L g eid now operator_id tfp parameters execution_logic transaction_type amount did bio_hash
  defines "out \<equiv> execute_full_gate L g eid now operator_id tfp parameters execution_logic
                   transaction_type amount did bio_hash"
    and "ctx0 \<equiv> full_gate_context g operator_id tfp parameters execution_logic
                   transaction_type amount did bio_hash"
  defines "tr \<equiv> attempts (executors g) gate_stages ctx0"
  shows "\<exists>e'. executions (snd out) eid = Some e' \<and>
     recorded e' = records_after tr Map.empty \<and>
     (case verdict tr of
        Inl x \<Rightarrow> fst out = Inl x \<and> \<not> is_approved e' \<and> liquidity_released e' = JFloat 0
      | Inr ok \<Rightarrow>
          if ok then
            is_approved e' \<and>
            (case contexts_after tr ctx0 ''canary_rollout_result'' of
               None \<Rightarrow> fst out = Inr (True, e') \<and> liquidity_released e' = JFloat 0
             | Some (Data (JDict d)) \<Rightarrow>
                 fst out = Inr (True, e') \<and>
                 liquidity_released e' = dict_get d ''release_amount'' (JFloat 0)
             | Some v \<Rightarrow> fst out = Inl AttributeError \<and> liquidity_released e' = JFloat 0)
          else fst out = Inr (False, e') \<and> \<not> is_approved e' \<and>
               liquidity_released e' = JFloat 0)"
proof -
  let ?g0 = "initiate_gate g eid now operator_id tfp parameters transaction_type amount"
  let ?e0 = "\<lparr>execution_id = eid, intent_hash = JStr '''', ge_operator_id = operator_id,
            target_fixed_point = tfp, stages = Map.empty, ge_created_at = now,
            ge_completed_at = None, is_approved = False, liquidity_released = JFloat 0,
            ge_context = ctx0\<rparr>"
  let ?g1 = "g\<lparr>executions := (executions g)(eid \<mapsto> ?e0)\<rparr>"
  have out: "out = (case run_stages L now eid gate_stages ?g1 of
                  (Inl e, g2) \<Rightarrow> (Inl e, g2)
                | (Inr all_passed, g2) \<Rightarrow>
                   (case executions g2 eid of
                      None \<Rightarrow> (Inl KeyError, g2)
                    | Some execution \<Rightarrow>
                       if \<not> all_passed then
                         (let execution' = execution\<lparr>ge_completed_at := Some now\<rparr>
                          in (Inr (False, execution'), put_execution g2 eid execution'))
                       else
                         (let execution1 = execution\<lparr>is_approved := True,
                                                       ge_completed_at := Some now\<rparr>;
                              canary_result =
                                (case ge_context execution1 ''canary_rollout_result'' of
                                   None \<Rightarrow> Data (JDict [])
                                 | Some r \<Rightarrow> r)
                          in case canary_result of
                               Data (JDict d) \<Rightarrow>
                                 (let execution2 = execution1\<lparr>liquidity_released :=
                                        dict_get d ''release_amount'' (JFloat 0)\<rparr>
                                  in (Inr (True, execution2), put_execution g2 eid execution2))
                             | _ \<Rightarrow> (Inl AttributeError, put_execution g2 eid execution1))))"
    unfolding out_def execute_full_gate_def initiate_gate_def put_execution_def ctx0_def
      full_gate_context_def Let_def
    by (simp del: run_stages.simps)
  have e0: "executions ?g1 eid = Some ?e0" by simp
  from run_stages_attempts [OF e0, of L now gate_stages]
  obtain e2 where e2: "executions (snd (run_stages L now eid gate_stages ?g1)) eid = Some e2"
    and ap: "\<not> is_approved e2" and lq: "liquidity_released e2 = JFloat 0"
    and cx: "ge_context e2 = contexts_after tr ctx0"
    and rc: "recorded e2 = records_after tr (recorded ?e0)"
    and vd: "fst (run_stages L now eid gate_stages ?g1) = verdict tr"
    unfolding tr_def by auto
  have r0: "recorded ?e0 = Map.empty" by (simp add: recorded_def fun_eq_iff)
  obtain res g2 where run: "run_stages L now eid gate_stages ?g1 = (res, g2)"
    by (cases "run_stages L now eid gate_stages ?g1")
  from e2 run have e2': "executions g2 eid = Some e2" by simp
  from vd run have vd': "verdict tr = res" by simp
  show ?thesis
  proof (cases res)
    case (Inl x)
    then show ?thesis
      using out run e2' vd' ap lq rc r0 by (auto intro!: exI [of _ e2])
  next
    case (Inr ok)
    show ?thesis
    proof (cases ok)
      case False
      then show ?thesis
        using out run e2' vd' ap lq rc r0 Inr
        by (auto simp: put_execution_def recorded_update Let_def)
    next
      case True
      then show ?thesis
        using out run e2' vd' ap lq rc r0 Inr cx
        by (auto simp: put_execution_def recorded_update Let_def dict_get_def
                 split: option.splits pyval.splits jval.splits)
    qed
  qed
qed

lemma distinct_gate_stages: "distinct gate_stages"
  by (simp add: gate_stages_def)

lemma option_case_id: "(case x of None \<Rightarrow> None | Some y \<Rightarrow> Some y) = x"
  by (cases x) simp_all

lemma passed_goes_on:
  assumes len: "length (attempts ex gate_stages ctx) = length gate_stages"
    and mem: "(s, a) \<in> set (attempts ex gate_stages ctx)" and p: "is_passed a"
  shows "goes_on s a"
proof -
  let ?tr = "attempts ex gate_stages ctx"
  from len have ne: "?tr \<noteq> []" by (auto simp: gate_stages_def)
  from attempts_prefix [of ex gate_stages ctx] len
  have fs: "map fst ?tr = gate_stages" by simp
  have "?tr = butlast ?tr @ [last ?tr]" using ne by simp
  with mem have "(s, a) \<in> set (butlast ?tr) \<or> (s, a) = last ?tr"
    by (metis Un_iff insert_iff list.set(1) list.set(2) set_append empty_iff)
  then show ?thesis
  proof
    assume "(s, a) \<in> set (butlast ?tr)"
    then show ?thesis by (rule attempts_butlast)
  next
    assume l: "(s, a) = last ?tr"
    have lg: "last gate_stages = FINAL_PERMIT" by (simp add: gate_stages_def)
    have "fst (last ?tr) = last (map fst ?tr)" using ne by (rule last_map [symmetric])
    with fs lg have "fst (last ?tr) = FINAL_PERMIT" by (simp only:)
    with l have "s = FINAL_PERMIT" by (metis fst_conv)
    with p show ?thesis by (cases a) simp_all
  qed
qed

lemma full_gate_attempts:
  fixes L g eid now operator_id tfp parameters execution_logic transaction_type amount did bio_hash
  defines "out \<equiv> execute_full_gate L g eid now operator_id tfp parameters execution_logic
                   transaction_type amount did bio_hash"
  defines "tr \<equiv> attempts (executors g) gate_stages
                  (full_gate_context g operator_id tfp parameters execution_logic
                     transaction_type amount did bio_hash)"
  shows "\<exists>e'. executions (snd out) eid = Some e' \<and>
     tr \<noteq> [] \<and> map fst tr = take (length tr) gate_stages \<and>
     (\<forall>s. recorded e' s = (case map_of tr s of None \<Rightarrow> None | Some a \<Rightarrow> stage_record a)) \<and>
     (\<forall>s a. (s, a) \<in> set tr \<and> \<not> is_passed a \<longrightarrow>
        last tr = (s, a) \<and>
        (\<forall>t \<in> set (drop (length tr) gate_stages). stages e' t = None) \<and>
        \<not> is_approved e' \<and> liquidity_released e' = JFloat 0 \<and>
        fst out = (case a of Raised x \<Rightarrow> Inl x | _ \<Rightarrow> Inr (False, e'))) \<and>
     is_approved e' = (length tr = length gate_stages \<and> list_all (\<lambda>(s, a). is_passed a) tr) \<and>
     (is_approved e' \<longrightarrow>
        (\<exists>r. map_of tr CANARY_ROLLOUT = Some (Passed r) \<and>
           (case r of
              JDict d \<Rightarrow> fst out = Inr (True, e') \<and>
                         liquidity_released e' = dict_get d ''release_amount'' (JFloat 0)
            | _ \<Rightarrow> fst out = Inl AttributeError \<and> liquidity_released e' = JFloat 0))) \<and>
     (\<not> is_approved e' \<longrightarrow> liquidity_released e' = JFloat 0) \<and>
     (\<forall>b e. fst out = Inr (b, e) \<longrightarrow> e = e' \<and> b = is_approved e')"
proof -
  let ?ctx = "full_gate_context g operator_id tfp parameters execution_logic
                transaction_type amount did bio_hash"
  from full_gate_verdict [of L g eid now operator_id tfp parameters execution_logic
      transaction_type amount did bio_hash]
  obtain e' where ex: "executions (snd out) eid = Some e'"
    and rc: "recorded e' = records_after tr Map.empty"
    and vd: "(case verdict tr of
        Inl x \<Rightarrow> fst out = Inl x \<and> \<not> is_approved e' \<and> liquidity_released e' = JFloat 0
      | Inr ok \<Rightarrow>
          if ok then
            is_approved e' \<and>
            (case contexts_after tr ?ctx ''canary_rollout_result'' of
               None \<Rightarrow> fst out = Inr (True, e') \<and> liquidity_released e' = JFloat 0
             | Some (Data (JDict d)) \<Rightarrow>
                 fst out = Inr (True, e') \<and>
                 liquidity_released e' = dict_get d ''release_amount'' (JFloat 0)
             | Some v \<Rightarrow> fst out = Inl AttributeError \<and> liquidity_released e' = JFloat 0)
          else fst out = Inr (False, e') \<and> \<not> is_approved e' \<and>
               liquidity_released e' = JFloat 0)"
    unfolding out_def tr_def by blast
  have ne: "tr \<noteq> []"
    unfolding tr_def by (rule attempts_nonempty) (simp add: gate_stages_def)
  have pre: "map fst tr = take (length tr) gate_stages"
    unfolding tr_def by (rule attempts_prefix)
  have dist: "distinct (map fst tr)"
    using pre distinct_gate_stages by (metis distinct_take)
  have rec: "\<forall>s. recorded e' s = (case map_of tr s of None \<Rightarrow> None | Some a \<Rightarrow> stage_record a)"
    using rc records_after_map_of [OF dist, of Map.empty]
    by (simp add: option_case_id split: option.splits)
  have later: "\<forall>t \<in> set (drop (length tr) gate_stages). stages e' t = None"
  proof
    fix t assume t: "t \<in> set (drop (length tr) gate_stages)"
    have "set (take (length tr) gate_stages) \<inter> set (drop (length tr) gate_stages) = {}"
      using distinct_gate_stages by (metis append_take_drop_id distinct_append)
    with t pre have "t \<notin> set (map fst tr)" by auto
    then have "map_of tr t = None" by (simp add: map_of_eq_None_iff)
    with rec have "recorded e' t = None" by simp
    then show "stages e' t = None" by (simp add: recorded_def)
  qed
  have appr: "is_approved e' = (verdict tr = Inr True)"
    using vd by (cases "verdict tr") (auto split: if_splits option.splits pyval.splits jval.splits)
  have fail: "\<forall>s a. (s, a) \<in> set tr \<and> \<not> is_passed a \<longrightarrow>
        last tr = (s, a) \<and>
        (\<forall>t \<in> set (drop (length tr) gate_stages). stages e' t = None) \<and>
        \<not> is_approved e' \<and> liquidity_released e' = JFloat 0 \<and>
        fst out = (case a of Raised x \<Rightarrow> Inl x | _ \<Rightarrow> Inr (False, e'))"
  proof (intro allI impI)
    fix s a assume h: "(s, a) \<in> set tr \<and> \<not> is_passed a"
    then have m: "(s, a) \<in> set (attempts (executors g) gate_stages ?ctx)"
      and np: "\<not> is_passed a" by (simp_all add: tr_def)
    from np goes_on_passed have ng: "\<not> goes_on s a" by blast
    from attempts_stop [OF m ng]
    have l: "last tr = (s, a)"
      and v: "verdict tr =
        (case a of Raised x \<Rightarrow> Inl x | Passed r \<Rightarrow> Inl AttributeError | _ \<Rightarrow> Inr False)"
      by (simp_all add: tr_def)
    from v np vd have "\<not> is_approved e' \<and> liquidity_released e' = JFloat 0 \<and>
        fst out = (case a of Raised x \<Rightarrow> Inl x | _ \<Rightarrow> Inr (False, e'))"
      by (cases a) simp_all
    with l later show "last tr = (s, a) \<and>
        (\<forall>t \<in> set (drop (length tr) gate_stages). stages e' t = None) \<and>
        \<not> is_approved e' \<and> liquidity_released e' = JFloat 0 \<and>
        fst out = (case a of Raised x \<Rightarrow> Inl x | _ \<Rightarrow> Inr (False, e'))"
      by blast
  qed
  have all: "(verdict tr = Inr True) =
      (length tr = length gate_stages \<and> list_all (\<lambda>(s, a). is_passed a) tr)"
  proof
    assume "verdict tr = Inr True"
    then have "length tr = length gate_stages \<and> list_all (\<lambda>(s, a). goes_on s a) tr"
      unfolding tr_def by (simp add: verdict_true)
    then show "length tr = length gate_stages \<and> list_all (\<lambda>(s, a). is_passed a) tr"
      using goes_on_passed by (auto simp: list_all_iff)
  next
    assume h: "length tr = length gate_stages \<and> list_all (\<lambda>(s, a). is_passed a) tr"
    then have len: "length (attempts (executors g) gate_stages ?ctx) = length gate_stages"
      by (simp add: tr_def)
    have "list_all (\<lambda>(s, a). goes_on s a) tr"
      unfolding list_all_iff
    proof
      fix p assume p: "p \<in> set tr"
      obtain s a where sa: "p = (s, a)" by (cases p)
      from h p sa have "is_passed a" by (auto simp: list_all_iff)
      from passed_goes_on [OF len _ this, of s] p sa
      show "case p of (s, a) \<Rightarrow> goes_on s a" by (simp add: tr_def)
    qed
    with h show "verdict tr = Inr True"
      unfolding tr_def by (simp add: verdict_true)
  qed
  have canary: "is_approved e' \<longrightarrow>
        (\<exists>r. map_of tr CANARY_ROLLOUT = Some (Passed r) \<and>
           (case r of
              JDict d \<Rightarrow> fst out = Inr (True, e') \<and>
                         liquidity_released e' = dict_get d ''release_amount'' (JFloat 0)
            | _ \<Rightarrow> fst out = Inl AttributeError \<and> liquidity_released e' = JFloat 0))"
  proof
    assume a: "is_approved e'"
    with appr have v: "verdict tr = Inr True" by simp
    with all have len: "length tr = length gate_stages"
      and ps: "list_all (\<lambda>(s, a). is_passed a) tr" by simp_all
    from pre len have "map fst tr = gate_stages" by simp
    then have "CANARY_ROLLOUT \<in> fst ` set tr"
      by (metis list.set_map gate_stages_def list.set_intros(1) list.set_intros(2))
    then obtain a where m: "(CANARY_ROLLOUT, a) \<in> set tr" by force
    with ps have "is_passed a" by (auto simp: list_all_iff)
    then obtain r where r: "a = Passed r" by (cases a) simp_all
    from m r dist have mo: "map_of tr CANARY_ROLLOUT = Some (Passed r)" by simp
    from contexts_after_canary [OF dist, of r ?ctx] m r
    have cx: "contexts_after tr ?ctx ''canary_rollout_result'' = Some (Data r)" by simp
    from vd v cx have "(case r of
              JDict d \<Rightarrow> fst out = Inr (True, e') \<and>
                         liquidity_released e' = dict_get d ''release_amount'' (JFloat 0)
            | _ \<Rightarrow> fst out = Inl AttributeError \<and> liquidity_released e' = JFloat 0)"
      by (cases r) simp_all
    with mo show "\<exists>r. map_of tr CANARY_ROLLOUT = Some (Passed r) \<and>
           (case r of
              JDict d \<Rightarrow> fst out = Inr (True, e') \<and>
                         liquidity_released e' = dict_get d ''release_amount'' (JFloat 0)
            | _ \<Rightarrow> fst out = Inl AttributeError \<and> liquidity_released e' = JFloat 0)"
      by blast
  qed
  have nappr: "\<not> is_approved e' \<longrightarrow> liquidity_released e' = JFloat 0"
    using vd by (cases "verdict tr") (auto split: if_splits)
  have ret: "\<forall>b e. fst out = Inr (b, e) \<longrightarrow> e = e' \<and> b = is_approved e'"
    using vd
    by (cases "verdict tr")
       (auto split: if_splits option.splits pyval.splits jval.splits)
  from appr all
  have appr': "is_approved e' =
      (length tr = length gate_stages \<and> list_all (\<lambda>(s, a). is_passed a) tr)"
    by (simp only:)
  from ex ne pre rec fail appr' canary nappr ret show ?thesis
    by blast
qed

text \<open>
  Claim C4. A full gate run is the sequence of attempts of the contract above: the
  stages are attempted in the fixed order registration, shadowing, challenge window,
  canary rollout, final permit, each on the context that the stages before it left, and
  the execution record holds the status, result and error of exactly the attempts that
  did not raise. An attempt that does not pass (its \<open>validate\<close> raises or rejects, or
  its \<open>execute\<close> raises or reports no success) is the last one: no later stage has a
  record, the execution is not approved, nothing is released, and the run raises that
  exception or returns not approved. The execution is approved exactly when all five
  stages passed; its released amount is then the \<open>release_amount\<close> of the canary
  stage's result (when that result is not a dict the run raises AttributeError and
  nothing is released). An execution that is not approved has released nothing, and a
  run that returns returns the stored execution and its approval.
\<close>

theorem C4_gate_monotonicity:
  fixes L g eid now operator_id tfp parameters execution_logic transaction_type amount did bio_hash
  defines "out \<equiv> execute_full_gate L g eid now operator_id tfp parameters execution_logic
                   transaction_type amount did bio_hash"
  defines "tr \<equiv> attempts (executors g) stage_order
                  (full_gate_context g operator_id tfp parameters execution_logic
                     transaction_type amount did bio_hash)"
  shows "\<exists>e'. executions (snd out) eid = Some e' \<and>
     tr \<noteq> [] \<and> map fst tr = take (length tr) stage_order \<and>
     (\<forall>s. recorded e' s = (case map_of tr s of None \<Rightarrow> None | Some a \<Rightarrow> stage_record a)) \<and>
     (\<forall>s a. (s, a) \<in> set tr \<and> \<not> is_passed a \<longrightarrow>
        last tr = (s, a) \<and>
        (\<forall>t \<in> set (drop (length tr) stage_order). stages e' t = None) \<and>
        \<not> is_approved e' \<and> liquidity_released e' = JFloat 0 \<and>
        fst out = (case a of Raised x \<Rightarrow> Inl x | _ \<Rightarrow> Inr (False, e'))) \<and>
     is_approved e' = (length tr = length stage_order \<and> list_all (\<lambda>(s, a). is_passed a) tr) \<and>
     (is_approved e' \<longrightarrow>
        (\<exists>r. map_of tr CANARY_ROLLOUT = Some (Passed r) \<and>
           (case r of
              JDict d \<Rightarrow> fst out = Inr (True, e') \<and>
                         liquidity_released e' = dict_get d ''release_amount'' (JFloat 0)
            | _ \<Rightarrow> fst out = Inl AttributeError \<and> liquidity_released e' = JFloat 0))) \<and>
     (\<not> is_approved e' \<longrightarrow> liquidity_released e' = JFloat 0) \<and>
     (\<forall>b e. fst out = Inr (b, e) \<longrightarrow> e = e' \<and> b = is_approved e')"
proof -
  have so: "stage_order = gate_stages"
    by (simp add: stage_order_def gate_stages_def)
  show ?thesis
    unfolding out_def tr_def so by (rule full_gate_attempts)
qed

lemma run_challenge_rejected_status:
  "get_stage_status (the (executions (snd run_challenge_rejected) ''e1'')) CHALLENGE_WINDOW = FAILED \<and>
   get_stage_status (the (executions (snd run_challenge_rejected) ''e1'')) SHADOWING = COMPLETED \<and>
   se_error (the (stages (the (executions (snd run_challenge_rejected) ''e1'')) CHALLENGE_WINDOW)) =
     Some ''Missing shadow execution result''"
  by code_simp

lemma attempts_challenge_rejected_trace:
  "map fst attempts_challenge_rejected = [REGISTRATION, SHADOWING, CHALLENGE_WINDOW] \<and>
   last attempts_challenge_rejected =
     (CHALLENGE_WINDOW, Rejected (Some ''Missing shadow execution result'')) \<and>
   is_passed (snd (attempts_challenge_rejected ! 0)) \<and>
   is_passed (snd (attempts_challenge_rejected ! 1))"
  by code_simp

lemma attempts_all_passed_trace:
  "map fst attempts_all_passed = stage_order \<and>
   list_all (\<lambda>(s, a). is_passed a) attempts_all_passed \<and>
   (case map_of attempts_all_passed CANARY_ROLLOUT of
      Some (Passed (JDict d)) \<Rightarrow> dict_get d ''release_amount'' (JFloat 0) = JFloat 1
    | _ \<Rightarrow> False)"
  by code_simp

text \<open>
  Two runs meet the hypotheses of the theorem. In the first the registration and
  shadowing stages pass and the challenge stage's \<open>validate\<close> rejects: the run returns
  not approved, the canary and final-permit stages have no record and nothing is
  released. In the second all five stages pass: the execution is approved and the
  canary's release amount, 100 times 0.01, is released.
\<close>

theorem C4_gate_monotonicity_witness:
  "last attempts_challenge_rejected =
     (CHALLENGE_WINDOW, Rejected (Some ''Missing shadow execution result'')) \<and>
   fst run_challenge_rejected =
     Inr (False, the (executions (snd run_challenge_rejected) ''e1'')) \<and>
   get_stage_status (the (executions (snd run_challenge_rejected) ''e1'')) CHALLENGE_WINDOW
     = FAILED \<and>
   stages (the (executions (snd run_challenge_rejected) ''e1'')) CANARY_ROLLOUT = None \<and>
   stages (the (executions (snd run_challenge_rejected) ''e1'')) FINAL_PERMIT = None \<and>
   \<not> is_approved (the (executions (snd run_challenge_rejected) ''e1'')) \<and>
   liquidity_released (the (executions (snd run_challenge_rejected) ''e1'')) = JFloat 0 \<and>
   list_all (\<lambda>(s, a). is_passed a) attempts_all_passed \<and>
   fst run_all_passed = Inr (True, the (executions (snd run_all_passed) ''e1'')) \<and>
   is_approved (the (executions (snd run_all_passed) ''e1'')) \<and>
   liquidity_released (the (executions (snd run_all_passed) ''e1'')) = JFloat 1"
proof -
  let ?g1 = "gate_with [(REGISTRATION, stub_executor True (JDict [(''intent_hash'', JStr ''ab'')]))]"
  let ?g2 = "gate_with [(REGISTRATION, stub_executor True (JDict [(''intent_hash'', JStr ''ab'')])),
                 (CHALLENGE_WINDOW, stub_executor True (JDict [(''challenge'', JBool True)]))]"
  let ?rej = "Rejected (Some ''Missing shadow execution result'')"
  from C4_gate_monotonicity [where L = stub_lib and g = ?g1 and eid = "''e1''" and now = 0
      and operator_id = "''alice''" and tfp = "[]" and parameters = "[]"
      and execution_logic = const_logic and transaction_type = "''CAPITAL_TRANSFER''"
      and amount = "JInt 100" and did = "''did:axiom:1''" and bio_hash = "''bh''"]
  obtain e1 where e1: "executions (snd run_challenge_rejected) ''e1'' = Some e1"
    and rec1: "\<forall>s. recorded e1 s =
        (case map_of attempts_challenge_rejected s of None \<Rightarrow> None | Some a \<Rightarrow> stage_record a)"
    and f1: "\<forall>s a. (s, a) \<in> set attempts_challenge_rejected \<and> \<not> is_passed a \<longrightarrow>
        last attempts_challenge_rejected = (s, a) \<and>
        (\<forall>t \<in> set (drop (length attempts_challenge_rejected) stage_order). stages e1 t = None) \<and>
        \<not> is_approved e1 \<and> liquidity_released e1 = JFloat 0 \<and>
        fst run_challenge_rejected = (case a of Raised x \<Rightarrow> Inl x | _ \<Rightarrow> Inr (False, e1))"
    unfolding run_challenge_rejected_def [symmetric] attempts_challenge_rejected_def [symmetric]
    by blast
  note t1 = attempts_challenge_rejected_trace
  from t1 have len1: "length attempts_challenge_rejected = 3"
    by (metis length_map length_Cons list.size(3) numeral_3_eq_3)
  from t1 len1 have m1: "(CHALLENGE_WINDOW, ?rej) \<in> set attempts_challenge_rejected"
    by (metis last_in_set length_0_conv zero_neq_numeral)
  from f1 m1 have r1: "(\<forall>t \<in> set (drop 3 stage_order). stages e1 t = None) \<and>
      \<not> is_approved e1 \<and> liquidity_released e1 = JFloat 0 \<and>
      fst run_challenge_rejected = Inr (False, e1)"
    using len1 by fastforce
  have d3: "drop 3 stage_order = [CANARY_ROLLOUT, FINAL_PERMIT]"
    by (simp add: stage_order_def)
  have "map_of attempts_challenge_rejected CHALLENGE_WINDOW = Some ?rej"
  proof -
    have "distinct (map fst attempts_challenge_rejected)" using t1 by simp
    with m1 show ?thesis by simp
  qed
  with rec1 have "recorded e1 CHALLENGE_WINDOW = Some (FAILED, None, Some ''Missing shadow execution result'')"
    by simp
  then have st1: "get_stage_status e1 CHALLENGE_WINDOW = FAILED"
    by (auto simp: recorded_def get_stage_status_def)
  from C4_gate_monotonicity [where L = stub_lib and g = ?g2 and eid = "''e1''" and now = 0
      and operator_id = "''alice''" and tfp = "[]" and parameters = "[]"
      and execution_logic = const_logic and transaction_type = "''CAPITAL_TRANSFER''"
      and amount = "JInt 100" and did = "''did:axiom:1''" and bio_hash = "''bh''"]
  obtain e2 where e2: "executions (snd run_all_passed) ''e1'' = Some e2"
    and a2: "is_approved e2 = (length attempts_all_passed = length stage_order \<and>
               list_all (\<lambda>(s, a). is_passed a) attempts_all_passed)"
    and c2: "is_approved e2 \<longrightarrow>
        (\<exists>r. map_of attempts_all_passed CANARY_ROLLOUT = Some (Passed r) \<and>
           (case r of
              JDict d \<Rightarrow> fst run_all_passed = Inr (True, e2) \<and>
                         liquidity_released e2 = dict_get d ''release_amount'' (JFloat 0)
            | _ \<Rightarrow> fst run_all_passed = Inl AttributeError \<and> liquidity_released e2 = JFloat 0))"
    unfolding run_all_passed_def [symmetric] attempts_all_passed_def [symmetric]
    by blast
  note t2 = attempts_all_passed_trace
  from t2 have len2: "length attempts_all_passed = length stage_order"
    by (metis length_map)
  with a2 t2 have ap2: "is_approved e2" by simp
  with c2 obtain r where r: "map_of attempts_all_passed CANARY_ROLLOUT = Some (Passed r)"
    and cr: "(case r of
              JDict d \<Rightarrow> fst run_all_passed = Inr (True, e2) \<and>
                         liquidity_released e2 = dict_get d ''release_amount'' (JFloat 0)
            | _ \<Rightarrow> fst run_all_passed = Inl AttributeError \<and> liquidity_released e2 = JFloat 0)"
    by blast
  from t2 r cr have r2: "fst run_all_passed = Inr (True, e2) \<and> liquidity_released e2 = JFloat 1"
    by (cases r) simp_all
  show ?thesis
    using t1 t2 e1 r1 d3 st1 e2 ap2 r2 by simp
qed

section \<open>Properties of the shield\<close>

lemma source_gate_raises:
  assumes "executors g REGISTRATION = Some (RegistrationExecutor L)"
  shows "fst (execute_full_gate L g eid now oid tfp params logic tt amount did bh) = Inl TypeError"
  using assms
  by (simp add: execute_full_gate_def initiate_gate_def put_execution_def gate_stages_def
      execute_stage_def Let_def RegistrationExecutor_def Registration_validate_def
      Registration_execute_def del: json_dumps.simps)

lemma source_gate_raises_state:
  assumes "executors g REGISTRATION = Some (RegistrationExecutor L)"
  shows "executors (snd (execute_full_gate L g eid now oid tfp params logic tt amount did bh))
           = executors g"
  using assms
  by (simp add: execute_full_gate_def initiate_gate_def put_execution_def gate_stages_def
      execute_stage_def Let_def RegistrationExecutor_def Registration_validate_def
      Registration_execute_def del: json_dumps.simps)

text \<open>
  Claim C1. The claimed scenario: two nodes registered with balances 5000 and 0, then a
  transfer of 100 from the first to the second with a shadow execution logic. In the
  code the gate's registration stage raises TypeError (it hashes a \<open>str\<close>), so
  \<open>initiate_capital_flow\<close> raises instead of returning approved; the balances stay 5000
  and 0 and the flow stays pending with no receipt.
\<close>

theorem C1_transfer_raises:
  "(let s0 = SovereignShield_init L t0 300 0.01 3;
        s1 = snd (register_node s0 ''node-a'' t1 ''alice'' (Some ida) 5000 []);
        s2 = snd (register_node s1 ''node-b'' t2 ''bob'' (Some idb) 0 []);
        out = initiate_capital_flow L s2 vid eid cid rid now ''node-a'' ''node-b'' 100 logic []
    in fst out = Inl TypeError \<and>
       map (\<lambda>(k, n). (k, balance n)) (nodes (snd out)) = [(''node-a'', 5000), (''node-b'', 0)] \<and>
       map (\<lambda>(k, f). (cf_status f, cf_receipt f)) (capital_flows (snd out)) = [(''pending'', None)])"
proof -
  define s0 where "s0 = SovereignShield_init L t0 300 0.01 3"
  define s1 where "s1 = snd (register_node s0 ''node-a'' t1 ''alice'' (Some ida) 5000 [])"
  define s2 where "s2 = snd (register_node s1 ''node-b'' t2 ''bob'' (Some idb) 0 [])"
  have g: "executors (inevitability_gate s2) REGISTRATION = Some (RegistrationExecutor L)"
    by (cases ida; cases idb)
       (simp add: s2_def s1_def s0_def register_node_def update_metrics_def Let_def
          SovereignShield_init_def InevitabilityGate_init_def)
  have n: "map (\<lambda>(k, n). (k, balance n, frozen_balance n, wn_status n)) (nodes s2) =
       [(''node-a'', 5000, 0, PROTECTED), (''node-b'', 0, 0, PROTECTED)]"
    by (cases ida; cases idb)
       (simp add: s2_def s1_def s0_def register_node_def update_metrics_def Let_def
          SovereignShield_init_def)
  have f: "capital_flows s2 = []"
    by (cases ida; cases idb)
       (simp add: s2_def s1_def s0_def register_node_def update_metrics_def Let_def
          SovereignShield_init_def)
  from n obtain a b where ns: "nodes s2 = [(''node-a'', a), (''node-b'', b)]"
    and a: "balance a = 5000" "frozen_balance a = 0" "wn_status a = PROTECTED"
    and b: "balance b = 0"
    by (auto simp: map_eq_Cons_conv)
  let ?g = "execute_full_gate L (inevitability_gate s2) eid now (wn_operator_id a)
             (replicate 512 1)
             [(''source'', JStr ''node-a''), (''target'', JStr ''node-b''), (''amount'', JFloat 100)]
             logic ''CAPITAL_TRANSFER'' (JFloat 100) (wn_did a) (wn_bio_hash a)"
  have r: "fst ?g = Inl TypeError" by (rule source_gate_raises [OF g])
  obtain g' where gg: "?g = (Inl TypeError, g')" using r by (cases ?g) auto
  show ?thesis
    unfolding s0_def [symmetric] Let_def s1_def [symmetric] s2_def [symmetric]
    using ns a b f gg
    by (simp add: initiate_capital_flow_def can_transact_def Let_def)
qed

lemma gate_amount_none_raises:
  "ge_context (the (executions (initiate_gate g eid now oid tfp params tt JNone) eid)) ''amount''
     = Some (Data JNone)"
  by (simp add: initiate_gate_def)

text \<open>
  Claim C9. The canary stage's \<open>validate\<close> rejects a context without an amount and one
  with a non-positive number, with the reason string; on an amount that is \<open>None\<close> (or a
  string) the comparison \<open>amount <= 0\<close> raises TypeError instead of rejecting.
  \<open>initiate_gate\<close> always stores the key \<open>amount\<close>, \<open>None\<close> when no amount was given.
\<close>

theorem C9_canary_validate:
  "Canary_validate (ctx(''amount'' \<mapsto> Data JNone)) = Inl TypeError \<and>
   Canary_validate (ctx(''amount'' \<mapsto> Data (JStr s))) = Inl TypeError \<and>
   Canary_validate (ctx(''amount'' := None)) =
     Inr (False, Some ''Invalid or missing amount for canary release'') \<and>
   Canary_validate (ctx(''amount'' \<mapsto> Data (JFloat r))) =
     (if r \<le> 0 then Inr (False, Some ''Invalid or missing amount for canary release'')
      else Inr (True, None))"
  by (simp add: Canary_validate_def)

text \<open>
  Claim C3. The claim keys the threshold check by metric name. The code looks up each
  threshold's id: with \<open>{identity_violations: 3}\<close> and with \<open>{identity_violations: 6}\<close>
  no threshold is triggered and the status is set to ACTIVE, although 3 is in the
  warning zone and 6 is above the critical value of the violation threshold. Under the
  key \<open>violation_threshold\<close> the value 6 triggers and sets COMPROMISED, the value 3
  does not.
\<close>

theorem C3_thresholds_keyed_by_id:
  "fst (check_collapse_thresholds (SovereignShield_init L t0 r c n) [(''identity_violations'', 6)] now) = [] \<and>
   shield_status (snd (check_collapse_thresholds (SovereignShield_init L t0 r c n) [(''identity_violations'', 6)] now)) = ACTIVE \<and>
   fst (check_collapse_thresholds (SovereignShield_init L t0 r c n) [(''identity_violations'', 3)] now) = [] \<and>
   shield_status (snd (check_collapse_thresholds (SovereignShield_init L t0 r c n) [(''identity_violations'', 3)] now)) = ACTIVE \<and>
   fst (check_collapse_thresholds (SovereignShield_init L t0 r c n) [(''violation_threshold'', 6)] now) = [''violation_threshold''] \<and>
   shield_status (snd (check_collapse_thresholds (SovereignShield_init L t0 r c n) [(''violation_threshold'', 6)] now)) = COMPROMISED \<and>
   fst (check_collapse_thresholds (SovereignShield_init L t0 r c n) [(''violation_threshold'', 3)] now) = [] \<and>
   shield_status (snd (check_collapse_thresholds (SovereignShield_init L t0 r c n) [(''violation_threshold'', 3)] now)) = ACTIVE \<and>
   map (\<lambda>(k, t). (metric_name t, warning_value t, critical_value t, is_warning t 3))
     (filter (\<lambda>(k, t). k = ''violation_threshold'') (collapse_thresholds (SovereignShield_init L t0 r c n)))
     = [(''identity_violations'', 2, 5, True)]"
  by (simp add: check_collapse_thresholds_def SovereignShield_init_def DEFAULT_THRESHOLDS_def
      mk_threshold_def threshold_check_def is_warning_def Let_def)

section \<open>Properties of the BARK validator\<close>






section \<open>Properties of the fixed-point iteration\<close>


lemma z_seq_length:
  assumes "\<forall>z. length (f z x) = length z"
  shows "length (z_seq f x z0 n) = length z0"
  using assms by (induction n) (simp_all add: z_seq_def)






















end
